theory Spec2Isabelle
  imports Main
begin

section \<open>JavaScript values\<close>

text \<open>
  The helper works on values parsed from JSON. They are modelled by the datatype
  \<open>jv\<close>; numbers are integers, strings are lists of ASCII characters, and an object is
  the list of its own properties. A property that is absent reads as \<open>JUndef\<close>, as
  it does in JavaScript.
\<close>

datatype jv =
    JUndef
  | JNull
  | JBool bool
  | JNum int
  | JStr string
  | JArr "jv list"
  | JObj "(string \<times> jv) list"

text \<open>Truthiness: \<open>undefined\<close>, \<open>null\<close>, \<open>false\<close>, \<open>0\<close> and \<open>""\<close> are falsy.\<close>

fun truthy :: "jv \<Rightarrow> bool" where
  "truthy JUndef = False"
| "truthy JNull = False"
| "truthy (JBool b) = b"
| "truthy (JNum n) = (n \<noteq> 0)"
| "truthy (JStr s) = (s \<noteq> [])"
| "truthy (JArr xs) = True"
| "truthy (JObj kvs) = True"

text \<open>\<open>a || b\<close> and \<open>a && b\<close> return one of their operands.\<close>

definition jor :: "jv \<Rightarrow> jv \<Rightarrow> jv" where
  "jor a b = (if truthy a then a else b)"

definition jand :: "jv \<Rightarrow> jv \<Rightarrow> jv" where
  "jand a b = (if truthy a then b else a)"

text \<open>
  Property access \<open>v.k\<close> for a value that is neither \<open>undefined\<close> nor \<open>null\<close>
  (every access of the source is guarded so): an object yields the property or
  \<open>undefined\<close>; the property names used by the helper are not defined on primitives or
  arrays.
\<close>

fun get :: "jv \<Rightarrow> string \<Rightarrow> jv" where
  "get (JObj kvs) k = (case map_of kvs k of Some v \<Rightarrow> v | None \<Rightarrow> JUndef)"
| "get v k = JUndef"

fun isArray :: "jv \<Rightarrow> bool" where
  "isArray (JArr xs) = True"
| "isArray v = False"

fun elems :: "jv \<Rightarrow> jv list" where
  "elems (JArr xs) = xs"
| "elems v = []"

text \<open>\<open>typeof v === "object"\<close> holds of \<open>null\<close>, arrays and objects.\<close>

fun typeofObject :: "jv \<Rightarrow> bool" where
  "typeofObject JNull = True"
| "typeofObject (JArr xs) = True"
| "typeofObject (JObj kvs) = True"
| "typeofObject v = False"

subsection \<open>Strings\<close>

definition digitChar :: "nat \<Rightarrow> char" where
  "digitChar d = char_of (48 + d)"

fun showNat :: "nat \<Rightarrow> string" where
  "showNat n = (if n < 10 then [digitChar n] else showNat (n div 10) @ [digitChar (n mod 10)])"

declare showNat.simps [simp del]

definition showInt :: "int \<Rightarrow> string" where
  "showInt i = (if i < 0 then CHR ''-'' # showNat (nat (- i)) else showNat (nat i))"

definition join :: "string \<Rightarrow> string list \<Rightarrow> string" where
  "join sep xs = (case xs of [] \<Rightarrow> [] | y # ys \<Rightarrow> y @ concat (map (\<lambda>s. sep @ s) ys))"

text \<open>
  \<open>String(v)\<close> and \<open>v.toString()\<close> on JSON values: an array joins its elements with
  commas, writing \<open>null\<close> and \<open>undefined\<close> elements as the empty string.
\<close>

fun jsString :: "jv \<Rightarrow> string" where
  "jsString JUndef = ''undefined''"
| "jsString JNull = ''null''"
| "jsString (JBool b) = (if b then ''true'' else ''false'')"
| "jsString (JNum n) = showInt n"
| "jsString (JStr s) = s"
| "jsString (JArr xs) =
     join '','' (map (\<lambda>x. if x = JUndef \<or> x = JNull then [] else jsString x) xs)"
| "jsString (JObj kvs) = ''[object Object]''"

definition toUpperChar :: "char \<Rightarrow> char" where
  "toUpperChar c = (let n = (of_char c :: nat) in
     if 97 \<le> n \<and> n \<le> 122 then char_of (n - 32) else c)"

definition toLowerChar :: "char \<Rightarrow> char" where
  "toLowerChar c = (let n = (of_char c :: nat) in
     if 65 \<le> n \<and> n \<le> 90 then char_of (n + 32) else c)"

definition toUpperCase :: "string \<Rightarrow> string" where
  "toUpperCase s = map toUpperChar s"

definition toLowerCase :: "string \<Rightarrow> string" where
  "toLowerCase s = map toLowerChar s"

text \<open>White space removed by \<open>trim\<close> and matched by \<open>\s\<close>: tab, LF, VT, FF, CR, space.\<close>

definition isSpace :: "char \<Rightarrow> bool" where
  "isSpace c = (let n = (of_char c :: nat) in (9 \<le> n \<and> n \<le> 13) \<or> n = 32)"

definition trim :: "string \<Rightarrow> string" where
  "trim s = rev (dropWhile isSpace (rev (dropWhile isSpace s)))"

subsection \<open>Numbers\<close>

text \<open>
  \<open>_asNumberOrNull\<close>: \<open>null\<close> for \<open>undefined\<close> and \<open>null\<close>, a number as it is; any other
  value goes through \<open>Number(value)\<close> and then \<open>parseInt(value, 10)\<close>, which the
  parameter \<open>coerce\<close> stands for (\<open>None\<close> when neither is finite).
\<close>

fun asNumberOrNull :: "(jv \<Rightarrow> int option) \<Rightarrow> jv \<Rightarrow> int option" where
  "asNumberOrNull coerce JUndef = None"
| "asNumberOrNull coerce JNull = None"
| "asNumberOrNull coerce (JNum n) = Some n"
| "asNumberOrNull coerce v = coerce v"

section \<open>NHL scoreboard: the detail string of a final game\<close>

text \<open>The locals \<open>type\<close> and \<open>number\<close> of \<open>_nhlScoreboardFinalDetail\<close>.\<close>

definition finalDetailType :: "jv \<Rightarrow> string" where
  "finalDetailType periodDescriptor =
     toUpperCase (jsString (jor (jand periodDescriptor (get periodDescriptor ''periodType'')) (JStr '''')))"

definition finalDetailNumber :: "(jv \<Rightarrow> int option) \<Rightarrow> jv \<Rightarrow> int option" where
  "finalDetailNumber coerce periodDescriptor =
     asNumberOrNull coerce (jand periodDescriptor (get periodDescriptor ''number''))"

definition nhlScoreboardFinalDetail :: "(jv \<Rightarrow> int option) \<Rightarrow> jv \<Rightarrow> string" where
  "nhlScoreboardFinalDetail coerce periodDescriptor =
     (let type = finalDetailType periodDescriptor;
          number = finalDetailNumber coerce periodDescriptor
      in if type = ''SO'' then ''Final/SO''
         else if type = ''OT'' then
           (case number of
              Some n \<Rightarrow> if n \<noteq> 0 \<and> n > 4 then ''Final/'' @ showInt (n - 3) @ ''OT''
                        else ''Final/OT''
            | None \<Rightarrow> ''Final/OT'')
         else ''Final'')"


section \<open>The helper's state\<close>

text \<open>A team and a game as \<open>_normalizedOlympicGamesFromEvents\<close> builds them.\<close>

record olympicTeam =
  code3 :: string
  name :: jv
  score :: string

record olympicGame =
  leagueKey :: string
  gameId :: string
  startTimeUTC :: string
  status :: string
  period :: string
  clock :: string
  home :: olympicTeam
  away :: olympicTeam
  venue :: jv
  sourceProviderName :: string
  sourceFetchedAtUTC :: string

text \<open>An entry of \<open>_providerCache\<close> and the record \<open>_nhlStatsRestStatus\<close>.\<close>

record cacheEntry =
  savedAtMs :: int
  cachedGames :: "olympicGame list"

record restStatus =
  available :: "bool option"
  checkedAt :: int
  warnedAt :: int

text \<open>
  The fields of \<open>this\<close> that the functions below read or write. \<open>config\<close> is
  \<open>JUndef\<close> and \<open>leagues\<close> is \<open>None\<close> until the first \<open>INIT\<close> notification.
\<close>

record helper =
  config :: jv
  leagues :: "string list option"
  nhlStatsRestStatus :: restStatus
  providerCache :: "string \<rightharpoonup> cacheEntry"
  olympicLastGoodByLeague :: "string \<rightharpoonup> olympicGame list"

definition start :: helper where
  "start = \<lparr> config = JUndef, leagues = None,
             nhlStatsRestStatus = \<lparr> available = None, checkedAt = 0, warnedAt = 0 \<rparr>,
             providerCache = Map.empty,
             olympicLastGoodByLeague = Map.empty \<rparr>"

section \<open>League configuration\<close>

definition SUPPORTED_LEAGUES :: "string list" where
  "SUPPORTED_LEAGUES =
     [''mlb'', ''nhl'', ''nfl'', ''nba'', ''olympic_mhockey'', ''olympic_whockey'']"

text \<open>
  \<open>str.split(/[\s,]+/)\<close>: the pieces between maximal runs of white space and commas,
  with an empty first or last piece when the string starts or ends with a separator.
\<close>

definition isSeparator :: "char \<Rightarrow> bool" where
  "isSeparator c = (isSpace c \<or> c = CHR '','')"

function splitRuns :: "string \<Rightarrow> string \<Rightarrow> string list" where
  "splitRuns cur [] = [rev cur]"
| "splitRuns cur (c # cs) =
     (if isSeparator c then rev cur # splitRuns [] (dropWhile isSeparator cs)
      else splitRuns (c # cur) cs)"
  by pat_completeness auto
termination
  by (relation "measure (\<lambda>(cur, s). length s)")
     (auto simp: less_Suc_eq_le length_dropWhile_le)

definition split :: "string \<Rightarrow> string list" where
  "split str = splitRuns [] str"

text \<open>The closure \<open>collect\<close> of \<open>_coerceLeagueArray\<close>, returning the tokens it pushes.\<close>

fun collect :: "jv \<Rightarrow> string list" where
  "collect JUndef = []"
| "collect JNull = []"
| "collect (JArr entries) = concat (map collect entries)"
| "collect entry =
     (let str = trim (jsString entry)
      in if str = [] then []
         else filter (\<lambda>part. part \<noteq> []) (map trim (split str)))"

text \<open>The loop over the tokens; \<open>seen\<close> always holds the members of \<open>normalized\<close>.\<close>

fun coerceTokens :: "string list \<Rightarrow> string list \<Rightarrow> string list" where
  "coerceTokens [] normalized = normalized"
| "coerceTokens (token # tokens) normalized =
     (let lower = toLowerCase token
      in if lower = ''all'' then SUPPORTED_LEAGUES
         else if lower \<in> set SUPPORTED_LEAGUES \<and> lower \<notin> set normalized
           then coerceTokens tokens (normalized @ [lower])
         else coerceTokens tokens normalized)"

definition coerceLeagueArray :: "jv \<Rightarrow> string list" where
  "coerceLeagueArray input = coerceTokens (collect input) []"

text \<open>\<open>cfg.leagues\<close> when it is defined, else \<open>cfg.league\<close>, where \<open>cfg\<close> is \<open>this.config || {}\<close>.\<close>

definition configuredSource :: "helper \<Rightarrow> jv" where
  "configuredSource h =
     (let cfg = jor (config h) (JObj [])
      in if get cfg ''leagues'' \<noteq> JUndef then get cfg ''leagues'' else get cfg ''league'')"

definition resolveConfiguredLeagues :: "helper \<Rightarrow> string list" where
  "resolveConfiguredLeagues h = coerceLeagueArray (configuredSource h)"

definition getLeague :: "helper \<Rightarrow> string" where
  "getLeague h =
     (case leagues h of
        Some (l # ls) \<Rightarrow> l
      | _ \<Rightarrow> (case coerceLeagueArray (configuredSource h) of
                l # ls \<Rightarrow> l
              | [] \<Rightarrow> ''mlb''))"

text \<open>
  The league fetchers of the helper: \<open>_fetchNhlGames\<close>, \<open>_fetchOlympicHockeyGames\<close>
  with its argument, \<open>_fetchNflGames\<close>, \<open>_fetchNbaGames\<close> and \<open>_fetchMlbGames\<close>.
\<close>

datatype fetcher =
  FetchNhlGames
| FetchOlympicHockeyGames string
| FetchNflGames
| FetchNbaGames
| FetchMlbGames

text \<open>The \<open>if\<close> chain in the loop of \<open>_fetchGames\<close>: the fetcher called for a league.\<close>

definition fetcherFor :: "string \<Rightarrow> fetcher" where
  "fetcherFor league =
     (if league = ''nhl'' then FetchNhlGames
      else if league = ''olympic_mhockey'' then FetchOlympicHockeyGames ''olympic_mhockey''
      else if league = ''olympic_whockey'' then FetchOlympicHockeyGames ''olympic_whockey''
      else if league = ''nfl'' then FetchNflGames
      else if league = ''nba'' then FetchNbaGames
      else FetchMlbGames)"

text \<open>
  \<open>_fetchGames\<close>: the fetchers that its loop calls, in order. The first one is called
  at once, each later one when the call before it has settled; a fetcher that fails
  is caught and the loop goes on. The list is \<open>this.leagues\<close> when that is a
  non-empty array, else \<open>[this._getLeague()]\<close>; it is read once, before the loop.
\<close>

definition fetchGames :: "helper \<Rightarrow> fetcher list" where
  "fetchGames h =
     map fetcherFor (case leagues h of
                       Some (l # ls) \<Rightarrow> l # ls
                     | _ \<Rightarrow> [getLeague h])"

text \<open>
  \<open>socketNotificationReceived\<close>: the new state, and the fetchers run by the
  \<open>_fetchGames()\<close> call that the handler makes once the league list is resolved. The
  timer that the handler restarts repeats \<open>_fetchGames\<close> later; neither assigns
  \<open>config\<close> or \<open>leagues\<close>. The handler has no \<open>throw\<close> and no \<open>console\<close> call of
  its own: messages are written only by \<open>_fetchGames\<close> and the fetchers that it
  calls. Any other notification is ignored.
\<close>

definition socketNotificationReceived :: "helper \<Rightarrow> string \<Rightarrow> jv \<Rightarrow> helper \<times> fetcher list" where
  "socketNotificationReceived h notification payload =
     (if notification = ''INIT'' then
        (let h1 = h\<lparr> config := jor payload (JObj []) \<rparr>;
             h2 = h1\<lparr> leagues := Some (resolveConfiguredLeagues h1) \<rparr>;
             h3 = (if leagues h2 = Some [] then h2\<lparr> leagues := Some [getLeague h2] \<rparr> else h2)
         in (h3, fetchGames h3))
      else (h, []))"

section \<open>The notification sent downstream\<close>

definition normalizeLeagueKey :: "jv \<Rightarrow> string option" where
  "normalizeLeagueKey v =
     (if v = JUndef \<or> v = JNull then None
      else (let str = toLowerCase (trim (jsString v))
            in if str \<in> set SUPPORTED_LEAGUES then Some str else None))"

text \<open>\<open>payload[key] = value\<close> on an object literal: replace the property or append it.\<close>

fun objSet :: "(string \<times> jv) list \<Rightarrow> string \<Rightarrow> jv \<Rightarrow> (string \<times> jv) list" where
  "objSet [] k v = [(k, v)]"
| "objSet ((k', v') # kvs) k v = (if k' = k then (k, v) # kvs else (k', v') # objSet kvs k v)"

text \<open>\<open>Object.keys(extras)\<close> with the values: own properties, or the indices of an array.\<close>

fun ownEntries :: "jv \<Rightarrow> (string \<times> jv) list" where
  "ownEntries (JObj kvs) = map (\<lambda>k. (k, get (JObj kvs) k)) (remdups (map fst kvs))"
| "ownEntries (JArr xs) = map (\<lambda>i. (showNat i, xs ! i)) [0 ..< length xs]"
| "ownEntries v = []"

text \<open>
  \<open>_notifyGames\<close> returns the payload handed to \<open>sendSocketNotification("GAMES", payload)\<close>.
\<close>

definition notifyGames :: "helper \<Rightarrow> jv \<Rightarrow> jv \<Rightarrow> jv \<Rightarrow> jv" where
  "notifyGames h league games extras =
     (let normalizedLeague = (case normalizeLeagueKey league of
                                Some l \<Rightarrow> l
                              | None \<Rightarrow> getLeague h);
          normalizedGames = (if isArray games then games
                             else if truthy games \<and> typeofObject games \<and> isArray (get games ''games'')
                               then get games ''games''
                             else JArr []);
          payload = [(''league'', JStr normalizedLeague), (''games'', normalizedGames)]
      in if truthy extras \<and> typeofObject extras
         then JObj (foldl (\<lambda>p (k, v). objSet p k v) payload (ownEntries extras))
         else JObj payload)"

text \<open>
  The invariant of \<open>this.leagues\<close>: once set, it holds supported league keys only.
\<close>

definition leaguesSupported :: "helper \<Rightarrow> bool" where
  "leaguesSupported h =
     (case leagues h of None \<Rightarrow> True | Some ls \<Rightarrow> set ls \<subseteq> set SUPPORTED_LEAGUES)"

definition hasOwn :: "jv \<Rightarrow> string \<Rightarrow> bool" where
  "hasOwn v k = (k \<in> set (map fst (ownEntries v)))"

section \<open>Dates and sorting\<close>

text \<open>
  \<open>_firstDate(...values)\<close>: the first truthy value that \<open>new Date(value)\<close> turns into
  a valid date, as milliseconds since the epoch, or \<open>null\<close>. The parameter \<open>newDate\<close>
  stands for the \<open>Date\<close> constructor (\<open>None\<close> for an invalid date).
\<close>

fun firstDate :: "(jv \<Rightarrow> int option) \<Rightarrow> jv list \<Rightarrow> int option" where
  "firstDate newDate [] = None"
| "firstDate newDate (v # values) =
     (if \<not> truthy v then firstDate newDate values
      else (case newDate v of
              Some dt \<Rightarrow> Some dt
            | None \<Rightarrow> firstDate newDate values))"

text \<open>
  The comparator that the helper passes to \<open>sort\<close> wherever it orders games by start
  time, on the two resolved dates.
\<close>

fun compareDates :: "int option \<Rightarrow> int option \<Rightarrow> int" where
  "compareDates (Some dateA) (Some dateB) = dateA - dateB"
| "compareDates (Some dateA) None = - 1"
| "compareDates None (Some dateB) = 1"
| "compareDates None None = 0"

text \<open>
  \<open>Array.prototype.sort(compare)\<close> is stable: elements that compare equal keep their
  order. It is modelled by insertion sort.
\<close>

fun insertBy :: "('a \<Rightarrow> 'a \<Rightarrow> int) \<Rightarrow> 'a \<Rightarrow> 'a list \<Rightarrow> 'a list" where
  "insertBy compare x [] = [x]"
| "insertBy compare x (y # ys) =
     (if compare x y \<le> 0 then x # y # ys else y # insertBy compare x ys)"

fun sortBy :: "('a \<Rightarrow> 'a \<Rightarrow> int) \<Rightarrow> 'a list \<Rightarrow> 'a list" where
  "sortBy compare [] = []"
| "sortBy compare (x # xs) = insertBy compare x (sortBy compare xs)"

text \<open>
  \<open>_firstString(...values)\<close>: the first value, other than \<open>null\<close> and \<open>undefined\<close>,
  whose trimmed string is not empty.
\<close>

fun firstString :: "jv list \<Rightarrow> string" where
  "firstString [] = []"
| "firstString (v # values) =
     (if v = JUndef \<or> v = JNull then firstString values
      else (let text = trim (jsString v)
            in if text \<noteq> [] then text else firstString values))"

section \<open>The Olympic normalizer\<close>

record normalizedStatus =
  nsStatus :: string
  nsDetailed :: string
  nsPeriod :: string
  nsClock :: string

definition normalizeOlympicStatus :: "jv \<Rightarrow> normalizedStatus" where
  "normalizeOlympicStatus statusObj =
     (let type = jor (get (jor statusObj (JObj [])) ''type'') (JObj []);
          rawType = toLowerCase (jsString (jor (get type ''state'') (JStr '''')));
          detailed = jsString (jor (jor (get type ''description'')
                                        (get (jor statusObj (JObj [])) ''detail'')) (JStr ''''));
          period = jsString (jor (get type ''shortDetail'') (JStr ''''));
          clock = jsString (jor (get (jor statusObj (JObj [])) ''displayClock'') (JStr ''''))
      in \<lparr> nsStatus = (if rawType = ''in'' \<or> rawType = ''live'' then ''live''
                        else if rawType = ''post'' \<or> rawType = ''final'' then ''final''
                        else ''pre''),
            nsDetailed = detailed, nsPeriod = period, nsClock = clock \<rparr>)"

text \<open>
  \<open>_normalizeOlympicTeam\<close>; \<open>None\<close> is the \<open>null\<close> it returns for a competitor with
  neither a name nor a code. Its caller never passes \<open>null\<close> or \<open>undefined\<close>.
\<close>

definition normalizeOlympicTeam :: "jv \<Rightarrow> olympicTeam option" where
  "normalizeOlympicTeam competitor =
     (let team = jor (jand competitor (get competitor ''team'')) (JObj []);
          name = jor (jor (jor (jor (get team ''displayName'') (get team ''shortDisplayName''))
                               (get team ''name''))
                          (get competitor ''displayName''))
                     (JStr '''');
          code3 = take 3 (toUpperCase (trim (jsString
                    (jor (jor (get team ''abbreviation'') (get team ''shortDisplayName''))
                         (JStr '''')))))
      in if \<not> truthy name \<and> code3 = [] then None
         else Some \<lparr> code3 = code3, name = name,
                     score = (if truthy competitor \<and> get competitor ''score'' \<noteq> JUndef
                                   \<and> get competitor ''score'' \<noteq> JNull
                              then jsString (get competitor ''score'') else '''') \<rparr>)"

text \<open>\<open>competitors.find(item => item && item.homeAway === side)\<close>.\<close>

definition findSide :: "string \<Rightarrow> jv list \<Rightarrow> jv" where
  "findSide side competitors =
     (case List.find (\<lambda>item. truthy item \<and> get item ''homeAway'' = JStr side) competitors of
        Some item \<Rightarrow> item
      | None \<Rightarrow> JUndef)"

text \<open>\<open>xs[i]\<close> on an array: \<open>undefined\<close> out of range.\<close>

definition at :: "jv list \<Rightarrow> nat \<Rightarrow> jv" where
  "at xs i = (if i < length xs then xs ! i else JUndef)"

text \<open>
  The locals \<open>competition\<close> and \<open>competitors\<close> of the loop of
  \<open>_normalizedOlympicGamesFromEvents\<close>, and the object literal that it pushes.
\<close>

definition eventCompetition :: "jv \<Rightarrow> jv" where
  "eventCompetition event =
     (if truthy event \<and> isArray (get event ''competitions'')
      then at (elems (get event ''competitions'')) 0
      else if truthy (get event ''competition'') \<and> typeofObject (get event ''competition'')
        then get event ''competition''
      else JNull)"

definition competitionCompetitors :: "jv \<Rightarrow> jv list" where
  "competitionCompetitors competition =
     (if truthy competition \<and> isArray (get competition ''competitors'')
      then elems (get competition ''competitors'') else [])"

definition pushedGame ::
    "string \<Rightarrow> string \<Rightarrow> string \<Rightarrow> nat \<Rightarrow> jv \<Rightarrow> jv \<Rightarrow> normalizedStatus \<Rightarrow>
     olympicTeam \<Rightarrow> olympicTeam \<Rightarrow> olympicGame" where
  "pushedGame lk provider fetchedAt i event competition st homeTeam awayTeam =
     \<lparr> leagueKey = lk,
       gameId = jsString (jor (jor (get event ''id'') (jand competition (get competition ''id'')))
                              (JStr (lk @ ''-'' @ showNat i))),
       startTimeUTC = firstString
         [get event ''date'', get event ''startDate'',
          jand competition (jor (get competition ''date'') (get competition ''startDate'')),
          JStr ''''],
       status = nsStatus st,
       period = nsPeriod st,
       clock = nsClock st,
       home = homeTeam,
       away = awayTeam,
       venue = (if truthy (jand competition (get competition ''venue''))
                then jor (jor (get (get competition ''venue'') ''fullName'')
                              (get (get competition ''venue'') ''name''))
                         (JStr '''')
                else JStr ''''),
       sourceProviderName = provider,
       sourceFetchedAtUTC = fetchedAt \<rparr>"

text \<open>
  The locals \<open>homeCompetitor\<close> and \<open>awayCompetitor\<close> of the loop: the first
  competitor marked for the side, else the first (home) or the second (away) entry of
  \<open>competitors\<close>, else an empty object.
\<close>

definition homeCompetitor :: "jv list \<Rightarrow> jv" where
  "homeCompetitor competitors =
     jor (jor (findSide ''home'' competitors) (at competitors 0)) (JObj [])"

definition awayCompetitor :: "jv list \<Rightarrow> jv" where
  "awayCompetitor competitors =
     jor (jor (findSide ''away'' competitors) (at competitors 1)) (JObj [])"

text \<open>
  The body of the loop for the element \<open>eventList[i]\<close>: the game pushed, or \<open>None\<close>
  where the body runs \<open>continue\<close>.
\<close>

definition olympicGameFromEvent :: "string \<Rightarrow> string \<Rightarrow> string \<Rightarrow> nat \<Rightarrow> jv \<Rightarrow> olympicGame option" where
  "olympicGameFromEvent lk provider fetchedAt i element =
     (let event = jor element (JObj []);
          competition = eventCompetition event;
          competitors = competitionCompetitors competition
      in if length competitors < 2 then None
         else
           (let st = normalizeOlympicStatus
                       (jor (jor (get event ''status'') (jand competition (get competition ''status'')))
                            (JObj []))
            in case normalizeOlympicTeam (homeCompetitor competitors) of
                 None \<Rightarrow> None
               | Some homeTeam \<Rightarrow>
                   (case normalizeOlympicTeam (awayCompetitor competitors) of
                      None \<Rightarrow> None
                    | Some awayTeam \<Rightarrow>
                        Some (pushedGame lk provider fetchedAt i event competition st
                                homeTeam awayTeam))))"

fun olympicGamesLoop :: "string \<Rightarrow> string \<Rightarrow> string \<Rightarrow> nat \<Rightarrow> jv list \<Rightarrow> olympicGame list" where
  "olympicGamesLoop lk provider fetchedAt i [] = []"
| "olympicGamesLoop lk provider fetchedAt i (element # eventList) =
     (case olympicGameFromEvent lk provider fetchedAt i element of
        None \<Rightarrow> olympicGamesLoop lk provider fetchedAt (i + 1) eventList
      | Some game \<Rightarrow> game # olympicGamesLoop lk provider fetchedAt (i + 1) eventList)"

text \<open>The start date that the comparator of the final \<open>sort\<close> resolves for a game.\<close>

definition olympicStartDate :: "(jv \<Rightarrow> int option) \<Rightarrow> olympicGame \<Rightarrow> int option" where
  "olympicStartDate newDate game = firstDate newDate [JStr (startTimeUTC game)]"

text \<open>
  \<open>_normalizedOlympicGamesFromEvents(events, leagueKey, providerName)\<close>; \<open>fetchedAt\<close>
  is the string that \<open>new Date().toISOString()\<close> returns at the call.
\<close>

definition normalizedOlympicGamesFromEvents ::
    "(jv \<Rightarrow> int option) \<Rightarrow> string \<Rightarrow> jv \<Rightarrow> string \<Rightarrow> string \<Rightarrow> olympicGame list" where
  "normalizedOlympicGamesFromEvents newDate fetchedAt events lk provider =
     sortBy (\<lambda>a b. compareDates (olympicStartDate newDate a) (olympicStartDate newDate b))
       (olympicGamesLoop lk provider fetchedAt 0 (if isArray events then elems events else []))"

section \<open>Time values, the calendar and date strings\<close>

subsection \<open>Time values and the calendar\<close>

text \<open>
  A time value is a number of milliseconds since 1970-01-01T00:00:00Z. \<open>daysFromCivil\<close>
  is the day number of a date of the proleptic Gregorian calendar (the \<open>MakeDay\<close> of
  ECMAScript for a month between 1 and 12), and \<open>civilFromDays\<close> is its inverse:
  the year, the month (1 to 12) and the day of the month of a day number
  (\<open>YearFromTime\<close>, \<open>MonthFromTime\<close> plus one, and \<open>DateFromTime\<close>).
\<close>

definition msPerDay :: int where
  "msPerDay = 86400000"

definition daysFromCivil :: "int \<Rightarrow> int \<Rightarrow> int \<Rightarrow> int" where
  "daysFromCivil year month day =
     (let y = (if month \<le> 2 then year - 1 else year);
          era = y div 400;
          yoe = y - era * 400;
          mp = (if month > 2 then month - 3 else month + 9);
          doy = (153 * mp + 2) div 5 + day - 1;
          doe = yoe * 365 + yoe div 4 - yoe div 100 + doy
      in era * 146097 + doe - 719468)"

definition civilFromDays :: "int \<Rightarrow> int \<times> int \<times> int" where
  "civilFromDays days =
     (let z = days + 719468;
          era = z div 146097;
          doe = z - era * 146097;
          yoe = (doe - doe div 1460 + doe div 36524 - doe div 146096) div 365;
          doy = doe - (365 * yoe + yoe div 4 - yoe div 100);
          mp = (5 * doy + 2) div 153;
          day = doy - (153 * mp + 2) div 5 + 1;
          month = (if mp < 10 then mp + 3 else mp - 9);
          year = yoe + era * 400 + (if month \<le> 2 then 1 else 0)
      in (year, month, day))"

definition MakeDay :: "int \<Rightarrow> int \<Rightarrow> int \<Rightarrow> int" where
  "MakeDay year month date =
     daysFromCivil (year + month div 12) (month mod 12 + 1) 1 + date - 1"

definition MakeDate :: "int \<Rightarrow> int \<Rightarrow> int" where
  "MakeDate day time = day * msPerDay + time"

definition TimeClip :: "int \<Rightarrow> int option" where
  "TimeClip t = (if abs t > 8640000000000000 then None else Some t)"

text \<open>
  The time zone of the process enters through \<open>LocalTZA(t, isUTC)\<close>, the offset of
  local time in milliseconds at the time value \<open>t\<close>, which is UTC when \<open>isUTC\<close> holds
  and local time otherwise. It is a parameter of everything below.
\<close>

definition LocalTime :: "(int \<Rightarrow> bool \<Rightarrow> int) \<Rightarrow> int \<Rightarrow> int" where
  "LocalTime LocalTZA t = t + LocalTZA t True"

definition UTC :: "(int \<Rightarrow> bool \<Rightarrow> int) \<Rightarrow> int \<Rightarrow> int" where
  "UTC LocalTZA t = t - LocalTZA t False"

text \<open>\<open>Date.prototype.getDate\<close> and \<open>Date.prototype.setDate\<close> on a valid date.\<close>

definition getDate :: "(int \<Rightarrow> bool \<Rightarrow> int) \<Rightarrow> int \<Rightarrow> int" where
  "getDate LocalTZA tv = snd (snd (civilFromDays (LocalTime LocalTZA tv div msPerDay)))"

definition setDate :: "(int \<Rightarrow> bool \<Rightarrow> int) \<Rightarrow> int \<Rightarrow> int \<Rightarrow> int option" where
  "setDate LocalTZA tv date =
     (let t = LocalTime LocalTZA tv;
          (year, month, day) = civilFromDays (t div msPerDay);
          newDate = MakeDate (MakeDay year (month - 1) date) (t mod msPerDay)
      in TimeClip (UTC LocalTZA newDate))"

subsection \<open>Date strings\<close>

definition isDigit :: "char \<Rightarrow> bool" where
  "isDigit c = (let n = (of_char c :: nat) in 48 \<le> n \<and> n \<le> 57)"

definition digitsValue :: "string \<Rightarrow> int" where
  "digitsValue ds = foldl (\<lambda>acc c. acc * 10 + (int (of_char c) - 48)) 0 ds"

text \<open>\<open>parseInt(s, 10)\<close>, with \<open>None\<close> for \<open>NaN\<close>; \<open>s\<close> is \<open>None\<close> for \<open>undefined\<close>.\<close>

definition parseInt :: "string option \<Rightarrow> int option" where
  "parseInt s =
     (case s of
        None \<Rightarrow> None
      | Some str \<Rightarrow>
          (let t = dropWhile isSpace str;
               negative = (t \<noteq> [] \<and> hd t = CHR ''-'');
               u = (if t \<noteq> [] \<and> (hd t = CHR ''-'' \<or> hd t = CHR ''+'') then tl t else t);
               ds = takeWhile isDigit u
           in if ds = [] then None
              else Some (if negative then - digitsValue ds else digitsValue ds)))"

text \<open>\<open>s.split(sep)\<close> for a separator of one character, and \<open>pieces[i]\<close>.\<close>

fun splitChar :: "char \<Rightarrow> string \<Rightarrow> string list" where
  "splitChar sep [] = [[]]"
| "splitChar sep (c # cs) =
     (if c = sep then [] # splitChar sep cs
      else (case splitChar sep cs of
              p # ps \<Rightarrow> (c # p) # ps
            | [] \<Rightarrow> [[c]]))"

definition piece :: "string list \<Rightarrow> nat \<Rightarrow> string option" where
  "piece pieces i = (if i < length pieces then Some (pieces ! i) else None)"

definition daysInMonth :: "int \<Rightarrow> int \<Rightarrow> int" where
  "daysInMonth year month =
     (if month = 12 then 31
      else daysFromCivil year (month + 1) 1 - daysFromCivil year month 1)"

text \<open>
  \<open>new Date(s)\<close> for a string: the date-only form \<open>YYYY-MM-DD\<close> of a calendar date is
  midnight UTC of that date. That is the form in which \<open>toLocaleDateString("en-CA")\<close>
  writes a date; every other string counts as an invalid date here.
\<close>

definition parseIsoDate :: "string \<Rightarrow> int option" where
  "parseIsoDate s =
     (if length s = 10 \<and> s ! 4 = CHR ''-'' \<and> s ! 7 = CHR ''-''
         \<and> list_all isDigit (take 4 s) \<and> list_all isDigit (take 2 (drop 5 s))
         \<and> list_all isDigit (drop 8 s)
      then
        (let year = digitsValue (take 4 s);
             month = digitsValue (take 2 (drop 5 s));
             day = digitsValue (drop 8 s)
         in if 1 \<le> month \<and> month \<le> 12 \<and> 1 \<le> day \<and> day \<le> daysInMonth year month
            then Some (MakeDate (daysFromCivil year month day) 0)
            else None)
      else None)"

definition pad :: "nat \<Rightarrow> int \<Rightarrow> string" where
  "pad width n = (let ds = showNat (nat n) in replicate (width - length ds) CHR ''0'' @ ds)"

text \<open>\<open>Date.prototype.toISOString\<close> on a valid date.\<close>

definition toISOString :: "int \<Rightarrow> string" where
  "toISOString tv =
     (let (year, month, day) = civilFromDays (tv div msPerDay);
          ms = tv mod msPerDay;
          yearText = (if 0 \<le> year \<and> year \<le> 9999 then pad 4 year
                      else (if year < 0 then ''-'' else ''+'') @ pad 6 (abs year))
      in yearText @ ''-'' @ pad 2 month @ ''-'' @ pad 2 day @ ''T'' @
         pad 2 (ms div 3600000) @ '':'' @ pad 2 (ms div 60000 mod 60) @ '':'' @
         pad 2 (ms div 1000 mod 60) @ ''.'' @ pad 3 (ms mod 1000) @ ''Z'')"


section \<open>NHL games: hydration and ordering\<close>

text \<open>Exceptions and rejected promises, as values.\<close>

datatype error =
    TypeError
  | RangeError
  | NetworkError
  | HttpError int
  | SyntaxError

text \<open>The start date that the comparator of \<open>_hydrateNhlGames\<close> resolves for a game.\<close>

definition nhlStartDate :: "(jv \<Rightarrow> int option) \<Rightarrow> jv \<Rightarrow> int option" where
  "nhlStartDate newDate game =
     firstDate newDate
       [jand game (get game ''startTimeUTC''),
        jand game (get game ''gameDate''),
        jand game (get game ''startTime''),
        jand game (get game ''gameDateTime''),
        jand game (get game ''startTimeLocal'')]"

text \<open>
  \<open>_hydrateNhlGame\<close>: \<open>Inr None\<close> is the \<open>null\<close> returned for a value that is not an
  object. The copy \<open>Object.assign({}, game)\<close> receives the start date under \<open>gameDate\<close>
  and \<open>startTimeUTC\<close> where these are falsy, and then new values for \<open>status\<close>,
  \<open>linescore\<close> and \<open>teams\<close>. The parameter \<open>hydrateParts\<close> stands for the code that
  computes these three values from the copy (it throws a \<open>TypeError\<close> for a game whose
  \<open>linescore\<close> or \<open>teams\<close> is \<open>null\<close>).
\<close>

definition hydrateNhlGame ::
    "(jv \<Rightarrow> int option) \<Rightarrow> (jv \<Rightarrow> error + jv \<times> jv \<times> jv) \<Rightarrow>
     jv \<Rightarrow> error + jv option" where
  "hydrateNhlGame newDate hydrateParts game =
     (if \<not> truthy game \<or> \<not> typeofObject game then Inr None
      else
        (let normalized = ownEntries game;
             startDate = nhlStartDate newDate (JObj normalized);
             dated =
               (case startDate of
                  None \<Rightarrow> normalized
                | Some d \<Rightarrow>
                    (let iso = toISOString d;
                         n1 = (if \<not> truthy (get (JObj normalized) ''gameDate'')
                               then objSet normalized ''gameDate'' (JStr iso) else normalized)
                     in if \<not> truthy (get (JObj n1) ''startTimeUTC'')
                        then objSet n1 ''startTimeUTC'' (JStr iso) else n1))
         in case hydrateParts (JObj dated) of
              Inl e \<Rightarrow> Inl e
            | Inr (st, linescore, teams) \<Rightarrow>
                Inr (Some (JObj (objSet (objSet (objSet dated ''status'' st)
                                           ''linescore'' linescore) ''teams'' teams)))))"

text \<open>The first loop of \<open>_hydrateNhlGames\<close>; an exception ends it.\<close>

fun hydrateLoop ::
    "(jv \<Rightarrow> int option) \<Rightarrow> (jv \<Rightarrow> error + jv \<times> jv \<times> jv) \<Rightarrow>
     jv list \<Rightarrow> error + jv list" where
  "hydrateLoop newDate hydrateParts [] = Inr []"
| "hydrateLoop newDate hydrateParts (g # gs) =
     (case hydrateNhlGame newDate hydrateParts g of
        Inl e \<Rightarrow> Inl e
      | Inr r \<Rightarrow>
          (case hydrateLoop newDate hydrateParts gs of
             Inl e \<Rightarrow> Inl e
           | Inr hydrated \<Rightarrow>
               Inr (case r of None \<Rightarrow> hydrated | Some game \<Rightarrow> game # hydrated)))"

definition hydrateNhlGames ::
    "(jv \<Rightarrow> int option) \<Rightarrow> (jv \<Rightarrow> error + jv \<times> jv \<times> jv) \<Rightarrow>
     jv \<Rightarrow> error + jv list" where
  "hydrateNhlGames newDate hydrateParts games =
     (if \<not> isArray games then Inr []
      else (case hydrateLoop newDate hydrateParts (elems games) of
              Inl e \<Rightarrow> Inl e
            | Inr hydrated \<Rightarrow>
                Inr (sortBy (\<lambda>a b. compareDates (nhlStartDate newDate a) (nhlStartDate newDate b))
                       hydrated)))"

text \<open>
  The order on resolved start dates that the properties below speak of: ascending
  time, with an unresolved date after every resolved one.
\<close>

fun datesInOrder :: "int option \<Rightarrow> int option \<Rightarrow> bool" where
  "datesInOrder (Some a) (Some b) = (a \<le> b)"
| "datesInOrder (Some a) None = True"
| "datesInOrder None (Some b) = False"
| "datesInOrder None None = True"

section \<open>The NHL stats REST fallback and its 24-hour switch\<close>

text \<open>
  What \<open>await fetch(url)\<close> followed by \<open>await res.json()\<close> can deliver: a rejected
  promise, or a response with its status and its body (\<open>None\<close> when the body is not
  JSON, so that \<open>res.json()\<close> throws).
\<close>

datatype httpResult =
    Rejected
  | Response int "jv option"

definition responseOk :: "int \<Rightarrow> bool" where
  "responseOk st = (200 \<le> st \<and> st < 300)"

definition restTtl :: int where
  "restTtl = 24 * 60 * 60 * 1000"

text \<open>
  \<open>_nhlStatsRestAvailable\<close> at the time \<open>now\<close> read from \<open>Date.now()\<close>: the verdict,
  the state (only \<open>warnedAt\<close> may change) and the console messages.
\<close>

definition nhlStatsRestAvailable :: "helper \<Rightarrow> int \<Rightarrow> bool \<times> helper \<times> string list" where
  "nhlStatsRestAvailable h now =
     (let st = nhlStatsRestStatus h
      in if checkedAt st \<noteq> 0 \<and> now - checkedAt st < restTtl \<and> available st = Some False then
           (if warnedAt st = 0 \<or> now - warnedAt st > restTtl
            then (False, h\<lparr> nhlStatsRestStatus := st\<lparr> warnedAt := now \<rparr> \<rparr>,
                  [''NHL stats REST endpoint previously returned 404; skipping REST fallback.''])
            else (False, h, []))
         else (True, h, []))"

text \<open>\<open>_markNhlStatsRestUnavailable\<close>, with the two readings of \<open>Date.now()\<close>.\<close>

definition markNhlStatsRestUnavailable :: "helper \<Rightarrow> int \<Rightarrow> int \<Rightarrow> helper \<times> string list" where
  "markNhlStatsRestUnavailable h now1 now2 =
     (h\<lparr> nhlStatsRestStatus := \<lparr> available = Some False, checkedAt = now1, warnedAt = now2 \<rparr> \<rparr>,
      [''NHL stats REST endpoint returned 404; disabling REST fallback for 24 hours.''])"

text \<open>
  The world as one call of \<open>_fetchNhlStatsRestGames\<close> meets it: the clock when
  availability is checked, what the endpoint answers if it is asked, and the clock when
  the switch is thrown.
\<close>

record restCall =
  atCheck :: int
  answer :: httpResult
  atMark :: int
  atWarn :: int

text \<open>
  What one call does: its result (the games, or the exception thrown), the requests it
  sent and the console messages it wrote.
\<close>

record restOutcome =
  restResult :: "error + jv list"
  restRequests :: "string list"
  restConsole :: "string list"

definition restUrl :: "string \<Rightarrow> string" where
  "restUrl dateIso =
     ''https://api.nhle.com/stats/rest/en/schedule?cayenneExp=gameDate=%22'' @ dateIso @ ''%22''"

text \<open>The loop that maps \<open>_normalizeNhlStatsRestGame\<close> over the raw games, dropping \<open>null\<close>.\<close>

definition normalizeRestGames :: "(jv \<Rightarrow> jv) \<Rightarrow> jv list \<Rightarrow> jv list" where
  "normalizeRestGames normalizeNhlStatsRestGame rawGames =
     filter truthy (map normalizeNhlStatsRestGame rawGames)"

text \<open>
  \<open>_fetchNhlStatsRestGames(dateIso)\<close>. The parameter \<open>normalizeNhlStatsRestGame\<close>
  stands for the function of that name, which maps one raw game to the normalized
  object (or to \<open>null\<close>); the other two parameters are those of \<open>hydrateNhlGames\<close>.
\<close>

definition fetchNhlStatsRestGames ::
    "(jv \<Rightarrow> int option) \<Rightarrow> (jv \<Rightarrow> error + jv \<times> jv \<times> jv) \<Rightarrow>
     (jv \<Rightarrow> jv) \<Rightarrow> helper \<Rightarrow> string \<Rightarrow> restCall \<Rightarrow> helper \<times> restOutcome" where
  "fetchNhlStatsRestGames newDate hydrateParts normalizeNhlStatsRestGame h dateIso call =
     (case nhlStatsRestAvailable h (atCheck call) of
        (False, h1, msgs) \<Rightarrow>
          (h1, \<lparr> restResult = Inr [], restRequests = [], restConsole = msgs \<rparr>)
      | (True, h1, msgs) \<Rightarrow>
          (case answer call of
             Rejected \<Rightarrow>
               (h1, \<lparr> restResult = Inl NetworkError, restRequests = [restUrl dateIso],
                      restConsole = msgs \<rparr>)
           | Response st body \<Rightarrow>
               if \<not> responseOk st then
                 (if st = 404 then
                    (let (h2, msgs2) = markNhlStatsRestUnavailable h1 (atMark call) (atWarn call)
                     in (h2, \<lparr> restResult = Inl (HttpError st), restRequests = [restUrl dateIso],
                               restConsole = msgs @ msgs2 \<rparr>))
                  else (h1, \<lparr> restResult = Inl (HttpError st), restRequests = [restUrl dateIso],
                              restConsole = msgs \<rparr>))
               else
                 (case body of
                    None \<Rightarrow>
                      (h1, \<lparr> restResult = Inl SyntaxError, restRequests = [restUrl dateIso],
                             restConsole = msgs \<rparr>)
                  | Some json \<Rightarrow>
                      if json = JNull then
                        (h1, \<lparr> restResult = Inl TypeError, restRequests = [restUrl dateIso],
                               restConsole = msgs \<rparr>)
                      else
                        (let rawGames = (if isArray (get json ''data'')
                                         then elems (get json ''data'') else []);
                             normalized = normalizeRestGames normalizeNhlStatsRestGame rawGames
                         in (h1, \<lparr> restResult = hydrateNhlGames newDate hydrateParts
                                                  (JArr normalized),
                                   restRequests = [restUrl dateIso],
                                   restConsole = msgs \<rparr>)))))"

text \<open>A run of successive calls, each on the state that the call before it left.\<close>

fun restCalls ::
    "(jv \<Rightarrow> int option) \<Rightarrow> (jv \<Rightarrow> error + jv \<times> jv \<times> jv) \<Rightarrow>
     (jv \<Rightarrow> jv) \<Rightarrow> helper \<Rightarrow> (string \<times> restCall) list \<Rightarrow> helper \<times> restOutcome list" where
  "restCalls newDate hydrateParts normalizeNhlStatsRestGame h [] = (h, [])"
| "restCalls newDate hydrateParts normalizeNhlStatsRestGame h ((dateIso, call) # calls) =
     (let (h1, out) = fetchNhlStatsRestGames newDate hydrateParts
                        normalizeNhlStatsRestGame h dateIso call;
          (h2, outs) = restCalls newDate hydrateParts normalizeNhlStatsRestGame h1 calls
      in (h2, out # outs))"

text \<open>The states in which the switch is off since the time \<open>t0\<close>.\<close>

definition switched :: "int \<Rightarrow> helper \<Rightarrow> bool" where
  "switched t0 h = (available (nhlStatsRestStatus h) = Some False \<and>
                    checkedAt (nhlStatsRestStatus h) = t0)"

section \<open>NFL: merging the scoreboards of a week\<close>

text \<open>The closure \<open>pushEvents\<close>: the truthy elements of an array, nothing otherwise.\<close>

definition pushEvents :: "jv \<Rightarrow> jv list" where
  "pushEvents v = (if isArray v then filter truthy (elems v) else [])"

definition collectNflScoreboardEvents :: "jv \<Rightarrow> jv list" where
  "collectNflScoreboardEvents json =
     (if \<not> truthy json \<or> \<not> typeofObject json then []
      else
        pushEvents (get json ''events'') @
        pushEvents (get json ''games'') @
        (if truthy (get json ''content'') \<and> typeofObject (get json ''content'') then
           pushEvents (get (get json ''content'') ''events'') @
           (if truthy (get (get json ''content'') ''schedule'')
               \<and> typeofObject (get (get json ''content'') ''schedule'')
            then pushEvents (get (get (get json ''content'') ''schedule'') ''events'') @
                 pushEvents (get (get (get json ''content'') ''schedule'') ''items'')
            else [])
         else []) @
        (if truthy (get json ''scoreboard'') \<and> typeofObject (get json ''scoreboard'')
         then pushEvents (get (get json ''scoreboard'') ''events'') else []))"

definition collectNflScoreboardByes :: "jv \<Rightarrow> jv list" where
  "collectNflScoreboardByes json =
     (if \<not> truthy json \<or> \<not> typeofObject json then []
      else
        (if truthy (get json ''week'') \<and> typeofObject (get json ''week'')
         then pushEvents (get (get json ''week'') ''teamsOnBye'') else []) @
        (if truthy (get json ''content'') \<and> typeofObject (get json ''content'') then
           (if truthy (get (get json ''content'') ''week'')
               \<and> typeofObject (get (get json ''content'') ''week'')
            then pushEvents (get (get (get json ''content'') ''week'') ''teamsOnBye'') else []) @
           (if truthy (get (get json ''content'') ''schedule'')
               \<and> typeofObject (get (get json ''content'') ''schedule'')
               \<and> truthy (get (get (get json ''content'') ''schedule'') ''week'')
               \<and> typeofObject (get (get (get json ''content'') ''schedule'') ''week'')
            then pushEvents
                   (get (get (get (get json ''content'') ''schedule'') ''week'') ''teamsOnBye'')
            else [])
         else []))"

record byeTeam =
  byeId :: jv
  byeAbbreviation :: string
  byeDisplayName :: string
  byeShortDisplayName :: jv

definition normalizeNflByeTeam :: "jv \<Rightarrow> byeTeam option" where
  "normalizeNflByeTeam team =
     (if \<not> truthy team then None
      else
        (let abbreviationSource =
               jor (jor (jor (jor (get team ''abbreviation'') (get team ''shortDisplayName''))
                             (get team ''name''))
                        (get team ''location''))
                   (JStr '''');
             abbr = trim (jsString abbreviationSource)
         in if abbr = [] then None
            else
              (let normalizedAbbr = toUpperCase abbr;
                   nameSource =
                     jor (jor (jor (jor (get team ''displayName'') (get team ''name''))
                                   (get team ''shortDisplayName''))
                              (get team ''location''))
                         (JStr normalizedAbbr);
                   trimmed = trim (jsString nameSource)
               in Some \<lparr> byeId = jor (jor (get team ''id'') (get team ''uid'')) (JStr normalizedAbbr),
                           byeAbbreviation = normalizedAbbr,
                           byeDisplayName = (if trimmed \<noteq> [] then trimmed else normalizedAbbr),
                           byeShortDisplayName = jor (get team ''shortDisplayName'') JNull \<rparr>)))"

text \<open>
  The two accumulators are JavaScript \<open>Map\<close>s, which keep their keys in insertion
  order and compare them by SameValueZero: primitives by value, objects by identity.
  Two keys taken from different places of parsed JSON are never the same object, so
  an array or an object is the same as no other key.
\<close>

fun isPrimitive :: "jv \<Rightarrow> bool" where
  "isPrimitive (JArr xs) = False"
| "isPrimitive (JObj kvs) = False"
| "isPrimitive v = True"

definition sameValueZero :: "jv \<Rightarrow> jv \<Rightarrow> bool" where
  "sameValueZero a b = (isPrimitive a \<and> a = b)"

definition mapHas :: "(jv \<times> 'v) list \<Rightarrow> jv \<Rightarrow> bool" where
  "mapHas m key = list_ex (\<lambda>(k, v). sameValueZero k key) m"

text \<open>\<open>byeTeams.set(abbreviation, bye)\<close>: a key that is present keeps its place.\<close>

fun mapSet :: "(string \<times> 'v) list \<Rightarrow> string \<Rightarrow> 'v \<Rightarrow> (string \<times> 'v) list" where
  "mapSet [] k v = [(k, v)]"
| "mapSet ((k', v') # m) k v = (if k' = k then (k, v) # m else (k', v') # mapSet m k v)"

text \<open>The key under which \<open>_mergeNflScoreboardResponse\<close> files \<open>events[j]\<close>.\<close>

definition nflEventKey :: "string \<Rightarrow> nat \<Rightarrow> jv \<Rightarrow> jv" where
  "nflEventKey keyPrefix j event =
     jor (jor (get event ''id'') (get event ''uid''))
         (JStr ((if keyPrefix \<noteq> [] then keyPrefix else ''event'') @ ''-'' @ showNat j))"

text \<open>The loop over \<open>events\<close>, from index \<open>j\<close> on.\<close>

fun mergeEvents :: "string \<Rightarrow> (jv \<times> jv) list \<Rightarrow> nat \<Rightarrow> jv list \<Rightarrow> (jv \<times> jv) list" where
  "mergeEvents keyPrefix aggregated j [] = aggregated"
| "mergeEvents keyPrefix aggregated j (event # events) =
     (if \<not> truthy event then mergeEvents keyPrefix aggregated (j + 1) events
      else
        (let key = nflEventKey keyPrefix j event
         in if \<not> mapHas aggregated key
            then mergeEvents keyPrefix (aggregated @ [(key, event)]) (j + 1) events
            else mergeEvents keyPrefix aggregated (j + 1) events))"

text \<open>The loop over \<open>teamsOnBye\<close>.\<close>

fun mergeByes :: "(string \<times> byeTeam) list \<Rightarrow> jv list \<Rightarrow> (string \<times> byeTeam) list" where
  "mergeByes byeTeams [] = byeTeams"
| "mergeByes byeTeams (team # teamsOnBye) =
     (case normalizeNflByeTeam team of
        None \<Rightarrow> mergeByes byeTeams teamsOnBye
      | Some bye \<Rightarrow> mergeByes (mapSet byeTeams (byeAbbreviation bye) bye) teamsOnBye)"

definition mergeNflScoreboardResponse ::
    "jv \<Rightarrow> (jv \<times> jv) list \<times> (string \<times> byeTeam) list \<Rightarrow> string \<Rightarrow>
     (jv \<times> jv) list \<times> (string \<times> byeTeam) list" where
  "mergeNflScoreboardResponse json acc keyPrefix =
     (if \<not> truthy json \<or> \<not> typeofObject json then acc
      else (mergeEvents keyPrefix (fst acc) 0 (collectNflScoreboardEvents json),
            mergeByes (snd acc) (collectNflScoreboardByes json)))"

subsection \<open>The Pro Bowl filter\<close>

text \<open>The closure \<open>pushToken\<close>: the tokens that a value contributes.\<close>

definition pushToken :: "jv \<Rightarrow> string list" where
  "pushToken val =
     (case val of
        JStr s \<Rightarrow> (let str = trim (toLowerCase s) in if str \<noteq> [] then [str] else [])
      | JNum n \<Rightarrow> (let str = trim (toLowerCase (showInt n)) in if str \<noteq> [] then [str] else [])
      | _ \<Rightarrow> [])"

fun startsWith :: "string \<Rightarrow> string \<Rightarrow> bool" where
  "startsWith s [] = True"
| "startsWith [] (p # ps) = False"
| "startsWith (c # cs) (p # ps) = (c = p \<and> startsWith cs ps)"

fun includesStr :: "string \<Rightarrow> string \<Rightarrow> bool" where
  "includesStr [] sub = (sub = [])"
| "includesStr (c # cs) sub = (startsWith (c # cs) sub \<or> includesStr cs sub)"

definition competitorTokens :: "jv \<Rightarrow> string list" where
  "competitorTokens element =
     (let entry = jor element (JObj []);
          team = jor (get entry ''team'') (JObj [])
      in pushToken (get entry ''displayName'') @ pushToken (get entry ''shortDisplayName'') @
         pushToken (get team ''displayName'') @ pushToken (get team ''shortDisplayName'') @
         pushToken (get team ''name'') @ pushToken (get team ''abbreviation''))"

definition competitionTokens :: "jv \<Rightarrow> string list" where
  "competitionTokens compn =
     (if \<not> truthy compn then []
      else pushToken (get compn ''name'') @ pushToken (get compn ''shortName'') @
           pushToken (get compn ''description'') @ pushToken (get compn ''headline'') @
           concat (map competitorTokens
                     (if isArray (get compn ''competitors'')
                      then elems (get compn ''competitors'') else [])))"

definition isNflProBowl :: "jv \<Rightarrow> bool" where
  "isNflProBowl game =
     (if \<not> truthy game \<or> \<not> typeofObject game then False
      else
        (let tokens =
               pushToken (get game ''name'') @ pushToken (get game ''shortName'') @
               pushToken (get game ''description'') @ pushToken (get game ''headline'') @
               concat (map competitionTokens
                         (if isArray (get game ''competitions'')
                          then elems (get game ''competitions'') else []))
         in if tokens = [] then False
            else
              (let combined = join '' '' tokens
               in includesStr combined ''pro bowl'' \<or> includesStr combined ''pro-bowl'' \<or>
                  includesStr combined ''nfc vs afc'' \<or> includesStr combined ''afc vs nfc'')))"

subsection \<open>The week\<close>

record nflWeekResults =
  weekGames :: "jv list"
  weekByes :: "byeTeam list"

text \<open>
  \<open>_finalizeNflWeekResults\<close>; \<open>localeCompare\<close> stands for \<open>String.prototype.localeCompare\<close>.
\<close>

definition finalizeNflWeekResults ::
    "(string \<Rightarrow> string \<Rightarrow> int) \<Rightarrow> (jv \<times> jv) list \<times> (string \<times> byeTeam) list \<Rightarrow> nflWeekResults" where
  "finalizeNflWeekResults localeCompare acc =
     \<lparr> weekGames = filter (\<lambda>game. \<not> isNflProBowl game) (map snd (fst acc)),
       weekByes = sortBy (\<lambda>a b. localeCompare (byeAbbreviation a) (byeAbbreviation b)) (map snd (snd acc)) \<rparr>"

text \<open>
  The loop of \<open>_fetchNflWeekGames\<close> over the dates, each with the JSON its scoreboard
  request delivered (\<open>None\<close> where the request or the parsing threw, which the loop
  logs and passes over).
\<close>

fun mergeWeek ::
    "(jv \<times> jv) list \<times> (string \<times> byeTeam) list \<Rightarrow> (string \<times> jv option) list \<Rightarrow>
     (jv \<times> jv) list \<times> (string \<times> byeTeam) list" where
  "mergeWeek acc [] = acc"
| "mergeWeek acc ((dateIso, None) # dates) = mergeWeek acc dates"
| "mergeWeek acc ((dateIso, Some json) # dates) =
     mergeWeek (mergeNflScoreboardResponse json acc dateIso) dates"

definition fetchNflWeekGames ::
    "(string \<Rightarrow> string \<Rightarrow> int) \<Rightarrow> (string \<times> jv option) list \<Rightarrow> nflWeekResults" where
  "fetchNflWeekGames localeCompare dates =
     finalizeNflWeekResults localeCompare (mergeWeek ([], []) dates)"

subsection \<open>First-write-wins, stated on the sequence of fetched events\<close>

text \<open>
  All events of the week in the order in which they are fetched, each with its key:
  the events of the first date in their order, then those of the second date, and so
  on.
\<close>

fun keyedFrom :: "string \<Rightarrow> nat \<Rightarrow> jv list \<Rightarrow> (jv \<times> jv) list" where
  "keyedFrom keyPrefix j [] = []"
| "keyedFrom keyPrefix j (event # events) =
     (if truthy event then [(nflEventKey keyPrefix j event, event)] else []) @
     keyedFrom keyPrefix (j + 1) events"

definition keyedEvents :: "string \<Rightarrow> jv list \<Rightarrow> (jv \<times> jv) list" where
  "keyedEvents keyPrefix events = keyedFrom keyPrefix 0 events"

fun fetchedEvents :: "(string \<times> jv option) list \<Rightarrow> (jv \<times> jv) list" where
  "fetchedEvents [] = []"
| "fetchedEvents ((dateIso, None) # dates) = fetchedEvents dates"
| "fetchedEvents ((dateIso, Some json) # dates) =
     keyedEvents dateIso (collectNflScoreboardEvents json) @ fetchedEvents dates"

text \<open>The entries of a sequence whose key occurs at no earlier position.\<close>

definition firstOccurrences :: "(jv \<times> jv) list \<Rightarrow> (jv \<times> jv) list" where
  "firstOccurrences all =
     map (\<lambda>i. all ! i)
       (filter (\<lambda>i. \<not> list_ex (\<lambda>j. sameValueZero (fst (all ! j)) (fst (all ! i))) [0 ..< i])
          [0 ..< length all])"

text \<open>One step of the loop over the events: file the event unless its key is present.\<close>

definition addFirst :: "(jv \<times> jv) list \<Rightarrow> jv \<times> jv \<Rightarrow> (jv \<times> jv) list" where
  "addFirst agg ke = (if mapHas agg (fst ke) then agg else agg @ [ke])"

section \<open>The Olympic hockey orchestrator\<close>

definition collectEspnScoreboardEvents :: "jv \<Rightarrow> jv list" where
  "collectEspnScoreboardEvents json =
     (if \<not> truthy json \<or> \<not> typeofObject json then []
      else
        pushEvents (get json ''events'') @
        pushEvents (get json ''games'') @
        (if truthy (get json ''content'') \<and> typeofObject (get json ''content'') then
           pushEvents (get (get json ''content'') ''events'') @
           (if truthy (get (get json ''content'') ''schedule'')
               \<and> typeofObject (get (get json ''content'') ''schedule'')
            then pushEvents (get (get (get json ''content'') ''schedule'') ''events'') @
                 pushEvents (get (get (get json ''content'') ''schedule'') ''items'')
            else [])
         else []) @
        (if truthy (get json ''scoreboard'') \<and> typeofObject (get json ''scoreboard'')
         then pushEvents (get (get json ''scoreboard'') ''events'') else []))"

definition normalizeEspnOlympicResponse ::
    "(jv \<Rightarrow> int option) \<Rightarrow> string \<Rightarrow> jv \<Rightarrow> string \<Rightarrow> string \<Rightarrow> olympicGame list" where
  "normalizeEspnOlympicResponse newDate fetchedAt json lk provider =
     normalizedOlympicGamesFromEvents newDate fetchedAt
       (JArr (collectEspnScoreboardEvents json)) lk provider"

text \<open>
  \<open>fetchOlympicScoreboardMen\<close> and \<open>fetchOlympicScoreboardWomen\<close>, given what the
  scoreboard request delivers: the normalized games, or the exception thrown.
\<close>

definition fetchOlympicScoreboardMen ::
    "(jv \<Rightarrow> int option) \<Rightarrow> string \<Rightarrow> httpResult \<Rightarrow> error + olympicGame list" where
  "fetchOlympicScoreboardMen newDate fetchedAt res =
     (case res of
        Rejected \<Rightarrow> Inl NetworkError
      | Response st body \<Rightarrow>
          if \<not> responseOk st then Inl (HttpError st)
          else (case body of
                  None \<Rightarrow> Inl SyntaxError
                | Some json \<Rightarrow>
                    Inr (normalizeEspnOlympicResponse newDate fetchedAt json
                           ''olympic_mhockey'' ''espn_mens_olympics'')))"

definition fetchOlympicScoreboardWomen ::
    "(jv \<Rightarrow> int option) \<Rightarrow> string \<Rightarrow> httpResult \<Rightarrow> error + olympicGame list" where
  "fetchOlympicScoreboardWomen newDate fetchedAt res =
     (case res of
        Rejected \<Rightarrow> Inl NetworkError
      | Response st body \<Rightarrow>
          if \<not> responseOk st then Inl (HttpError st)
          else (case body of
                  None \<Rightarrow> Inl SyntaxError
                | Some json \<Rightarrow>
                    Inr (normalizeEspnOlympicResponse newDate fetchedAt json
                           ''olympic_whockey'' ''espn_womens_olympics'')))"

text \<open>The four providers that are not implemented yet return no games.\<close>

definition fetchOlympicsComFallback :: "error + olympicGame list" where
  "fetchOlympicsComFallback = Inr []"

definition fetchIihfFallback :: "error + olympicGame list" where
  "fetchIihfFallback = Inr []"

definition fetchTheSportsDbFallback :: "error + olympicGame list" where
  "fetchTheSportsDbFallback = Inr []"

definition fetchWikipediaFinalsFallback :: "error + olympicGame list" where
  "fetchWikipediaFinalsFallback = Inr []"

text \<open>
  The world as one cycle of \<open>_fetchOlympicHockeyGames\<close> meets it: the date that
  \<open>_getTargetDate\<close> returns, what the scoreboard request delivers, the events that
  \<open>_fetchOlympicResultsPageGames\<close> returns (an array; the function catches every
  exception), \<open>Date.now()\<close> at the cache lookup of the provider with index \<open>i\<close> and
  when a result is cached, and the string of \<open>new Date().toISOString()\<close>.
\<close>

record olympicCycle =
  cycDateIso :: string
  cycScoreboard :: httpResult
  cycResultsPage :: jv
  cycLookupAt :: "nat \<Rightarrow> int"
  cycSavedAt :: int
  cycStamp :: string

text \<open>
  \<open>providerPlans\<close>, each fetcher replaced by what it delivers in this cycle when it is
  called.
\<close>

definition providerPlans ::
    "(jv \<Rightarrow> int option) \<Rightarrow> string \<Rightarrow> olympicCycle \<Rightarrow> (string \<times> (error + olympicGame list)) list" where
  "providerPlans newDate lk cyc =
     (if lk = ''olympic_whockey'' then
        [(''espn_womens_olympics'',
            fetchOlympicScoreboardWomen newDate (cycStamp cyc) (cycScoreboard cyc)),
         (''olympics_com'', fetchOlympicsComFallback),
         (''iihf'', fetchIihfFallback),
         (''thesportsdb'', fetchTheSportsDbFallback),
         (''wikipedia'', fetchWikipediaFinalsFallback)]
      else
        [(''espn_mens_olympics'',
            fetchOlympicScoreboardMen newDate (cycStamp cyc) (cycScoreboard cyc)),
         (''olympics_com'', fetchOlympicsComFallback),
         (''iihf'', fetchIihfFallback),
         (''thesportsdb'', fetchTheSportsDbFallback),
         (''wikipedia'', fetchWikipediaFinalsFallback)])"

subsection \<open>The provider cache\<close>

definition cacheKey :: "string \<Rightarrow> string \<Rightarrow> string \<Rightarrow> string" where
  "cacheKey provider lk dateIso = provider @ ''|'' @ lk @ ''|'' @ dateIso"

text \<open>
  The local \<open>ttlMs\<close> of \<open>_getProviderCache\<close>; \<open>toNumber\<close> stands for \<open>Number\<close>, with
  \<open>None\<close> for \<open>NaN\<close>.
\<close>

definition cacheTtlMs :: "(jv \<Rightarrow> int option) \<Rightarrow> helper \<Rightarrow> int" where
  "cacheTtlMs toNumber h =
     max 15000
       (case toNumber (jand (config h) (get (config h) ''providerCacheMs'')) of
          Some n \<Rightarrow> if n \<noteq> 0 then n else 20000
        | None \<Rightarrow> 20000)"

text \<open>\<open>_getProviderCache\<close>: the cached games or \<open>null\<close>; an expired entry is deleted.\<close>

definition getProviderCache ::
    "(jv \<Rightarrow> int option) \<Rightarrow> helper \<Rightarrow> string \<Rightarrow> string \<Rightarrow> string \<Rightarrow> int \<Rightarrow>
     olympicGame list option \<times> helper" where
  "getProviderCache toNumber h provider lk dateIso now =
     (let ttlMs = cacheTtlMs toNumber h;
          key = cacheKey provider lk dateIso
      in case providerCache h key of
           None \<Rightarrow> (None, h)
         | Some entry \<Rightarrow>
             if now - savedAtMs entry > ttlMs
             then (None, h\<lparr> providerCache := (providerCache h)(key := None) \<rparr>)
             else (Some (cachedGames entry), h))"

definition setProviderCache ::
    "helper \<Rightarrow> string \<Rightarrow> string \<Rightarrow> string \<Rightarrow> olympicGame list \<Rightarrow> int \<Rightarrow> helper" where
  "setProviderCache h provider lk dateIso gs now =
     h\<lparr> providerCache := (providerCache h)(cacheKey provider lk dateIso \<mapsto>
          \<lparr> savedAtMs = now, cachedGames = gs \<rparr>) \<rparr>"

subsection \<open>The legacy events sent to the front end\<close>

text \<open>\<open>a || b\<close> on two strings.\<close>

definition sor :: "string \<Rightarrow> string \<Rightarrow> string" where
  "sor a b = (if a \<noteq> [] then a else b)"

definition legacyStatusFromNormalized :: "olympicGame \<Rightarrow> jv" where
  "legacyStatusFromNormalized game =
     (let state = sor (status game) ''pre'';
          isLive = (state = ''live'');
          isFinal = (state = ''final'')
      in JObj
        [(''abstractGameState'',
            JStr (if isLive then ''Live'' else if isFinal then ''Final'' else ''Preview'')),
         (''detailedState'',
            JStr (if isLive then sor (sor (period game) (clock game)) ''In Progress''
                  else if isFinal then ''Final'' else ''Scheduled'')),
         (''displayClock'', JStr (sor (clock game) '''')),
         (''period'', JStr (sor (period game) '''')),
         (''type'', JObj
            [(''state'', JStr (if isLive then ''in'' else if isFinal then ''post'' else ''pre'')),
             (''description'',
                JStr (if isLive then ''In Progress'' else if isFinal then ''Final''
                      else ''Scheduled'')),
             (''shortDetail'',
                JStr (sor (period game) (if isFinal then ''Final'' else ''Scheduled'')))])])"

definition legacyEvent :: "olympicGame \<Rightarrow> jv" where
  "legacyEvent game =
     (let statusObj = legacyStatusFromNormalized game
      in JObj
        [(''id'', JStr (gameId game)),
         (''date'', JStr (startTimeUTC game)),
         (''competitions'', JArr [JObj
            [(''date'', JStr (startTimeUTC game)),
             (''competitors'', JArr
                [JObj [(''homeAway'', JStr ''away''),
                       (''score'', JStr (score (away game))),
                       (''team'', JObj [(''abbreviation'', JStr (code3 (away game))),
                                        (''displayName'', name (away game))])],
                 JObj [(''homeAway'', JStr ''home''),
                       (''score'', JStr (score (home game))),
                       (''team'', JObj [(''abbreviation'', JStr (code3 (home game))),
                                        (''displayName'', name (home game))])]]),
             (''venue'', JObj [(''fullName'', jor (venue game) (JStr ''''))]),
             (''status'', statusObj)]]),
         (''status'', statusObj)])"

definition normalizedGamesToLegacyEvents :: "olympicGame list \<Rightarrow> jv list" where
  "normalizedGamesToLegacyEvents gs = map legacyEvent gs"

subsection \<open>One cycle\<close>

text \<open>
  The loop over \<open>providerPlans\<close> from the provider with index \<open>i\<close> on: the state, and
  the locals \<open>normalizedGames\<close> and \<open>providerUsed\<close> when the loop ends. A cached
  entry ends the loop, and so does a provider that delivers at least one game; an
  exception is caught and the next provider is tried.
\<close>

fun providerLoop ::
    "(jv \<Rightarrow> int option) \<Rightarrow> helper \<Rightarrow> string \<Rightarrow> olympicCycle \<Rightarrow> nat \<Rightarrow>
     (string \<times> (error + olympicGame list)) list \<Rightarrow> helper \<times> olympicGame list \<times> string" where
  "providerLoop toNumber h lk cyc i [] = (h, [], ''none'')"
| "providerLoop toNumber h lk cyc i ((provider, fetched) # plans) =
     (case getProviderCache toNumber h provider lk (cycDateIso cyc) (cycLookupAt cyc i) of
        (Some cached, h1) \<Rightarrow> (h1, cached, provider @ '' (cache)'')
      | (None, h1) \<Rightarrow>
          (case fetched of
             Inl providerError \<Rightarrow> providerLoop toNumber h1 lk cyc (i + 1) plans
           | Inr gs \<Rightarrow>
               if length gs > 0
               then (setProviderCache h1 provider lk (cycDateIso cyc) gs (cycSavedAt cyc),
                     gs, provider)
               else providerLoop toNumber h1 lk cyc (i + 1) plans))"

text \<open>The results-page stage, on the locals that the loop left.\<close>

definition resultsPageStage ::
    "(jv \<Rightarrow> int option) \<Rightarrow> string \<Rightarrow> olympicCycle \<Rightarrow> olympicGame list \<times> string \<Rightarrow>
     olympicGame list \<times> string" where
  "resultsPageStage newDate lk cyc loc =
     (if length (fst loc) = 0 then
        (let resultsFallbackGames =
               normalizedOlympicGamesFromEvents newDate (cycStamp cyc) (cycResultsPage cyc)
                 lk ''espn_results_page''
         in if length resultsFallbackGames > 0
            then (resultsFallbackGames, ''espn_results_page'')
            else loc)
      else loc)"

text \<open>The last-good stage: store a non-empty result, or fall back on the stored one.\<close>

definition lastGoodStage ::
    "helper \<Rightarrow> string \<Rightarrow> olympicGame list \<times> string \<Rightarrow> helper \<times> olympicGame list \<times> string" where
  "lastGoodStage h lk loc =
     (if length (fst loc) > 0
      then (h\<lparr> olympicLastGoodByLeague := (olympicLastGoodByLeague h)(lk \<mapsto> fst loc) \<rparr>,
            fst loc, snd loc)
      else (case olympicLastGoodByLeague h lk of
              Some snapshot \<Rightarrow>
                if length snapshot > 0 then (h, snapshot, ''last_good_cache'')
                else (h, fst loc, snd loc)
            | None \<Rightarrow> (h, fst loc, snd loc)))"

text \<open>
  \<open>_fetchOlympicHockeyGames(league)\<close>: the state it leaves and the payload it sends.
  Once \<open>_getTargetDate\<close> has returned, no statement of its \<open>try\<close> block throws on
  JSON values, so the \<open>catch\<close> branch (which sends the last-good games too) has no
  counterpart here. Console output is not modelled.
\<close>

definition fetchOlympicHockeyGames ::
    "(jv \<Rightarrow> int option) \<Rightarrow> (jv \<Rightarrow> int option) \<Rightarrow> helper \<Rightarrow> string \<Rightarrow> olympicCycle \<Rightarrow>
     helper \<times> jv" where
  "fetchOlympicHockeyGames newDate toNumber h league cyc =
     (let lk = (if league = ''olympic_whockey'' then ''olympic_whockey'' else ''olympic_mhockey'');
          (h1, games1, used1) = providerLoop toNumber h lk cyc 0 (providerPlans newDate lk cyc);
          (h2, normalizedGames, providerUsed) =
             lastGoodStage h1 lk (resultsPageStage newDate lk cyc (games1, used1));
          events = normalizedGamesToLegacyEvents normalizedGames
      in (h2, notifyGames h2 (JStr lk) (JArr events)
                (JObj [(''olympicDiagnostics'', JObj
                   [(''providerUsed'', JStr providerUsed),
                    (''fetchedAtUTC'', JStr (cycStamp cyc)),
                    (''gameCount'', JNum (int (length events))),
                    (''dateIso'', JStr (cycDateIso cyc))])])))"

text \<open>
  A provider delivers no games in a cycle when it throws or returns an empty list, and
  the cache holds no games for it when its entry is absent, expired or empty.
\<close>

definition yieldsNoGames :: "error + olympicGame list \<Rightarrow> bool" where
  "yieldsNoGames fetched = (case fetched of Inl e \<Rightarrow> True | Inr gs \<Rightarrow> gs = [])"

definition cacheHoldsNoGames ::
    "(jv \<Rightarrow> int option) \<Rightarrow> helper \<Rightarrow> string \<Rightarrow> string \<Rightarrow> string \<Rightarrow> int \<Rightarrow> bool" where
  "cacheHoldsNoGames toNumber h provider lk dateIso now =
     (case fst (getProviderCache toNumber h provider lk dateIso now) of
        None \<Rightarrow> True
      | Some cached \<Rightarrow> cached = [])"

fun chainYieldsNoGames ::
    "(jv \<Rightarrow> int option) \<Rightarrow> helper \<Rightarrow> string \<Rightarrow> olympicCycle \<Rightarrow> nat \<Rightarrow>
     (string \<times> (error + olympicGame list)) list \<Rightarrow> bool" where
  "chainYieldsNoGames toNumber h lk cyc i [] = True"
| "chainYieldsNoGames toNumber h lk cyc i ((provider, fetched) # plans) =
     (cacheHoldsNoGames toNumber h provider lk (cycDateIso cyc) (cycLookupAt cyc i) \<and>
      yieldsNoGames fetched \<and>
      chainYieldsNoGames toNumber h lk cyc (i + 1) plans)"

subsection \<open>Two example cycles\<close>

text \<open>
  A first cycle in which the scoreboard delivers one game, and a second cycle a minute
  later in which the scoreboard answers 503 and the results page has no events.
\<close>

definition exampleScoreboard :: jv where
  "exampleScoreboard =
     JObj [(''events'', JArr [JObj
        [(''id'', JStr ''401''), (''date'', JStr ''2026-02-11T20:00Z''),
         (''status'', JObj [(''type'', JObj [(''state'', JStr ''pre'')])]),
         (''competitions'', JArr [JObj [(''competitors'', JArr
            [JObj [(''homeAway'', JStr ''home''),
                   (''team'', JObj [(''abbreviation'', JStr ''CAN''),
                                    (''displayName'', JStr ''Canada'')])],
             JObj [(''homeAway'', JStr ''away''),
                   (''team'', JObj [(''abbreviation'', JStr ''SWE''),
                                    (''displayName'', JStr ''Sweden'')])]])]])]])]"

definition exampleCycle1 :: olympicCycle where
  "exampleCycle1 =
     \<lparr> cycDateIso = ''2026-02-11'',
       cycScoreboard = Response 200 (Some exampleScoreboard),
       cycResultsPage = JArr [],
       cycLookupAt = (\<lambda>i. 1000 + int i),
       cycSavedAt = 1500,
       cycStamp = ''2026-02-11T19:00:01.500Z'' \<rparr>"

definition exampleCycle2 :: olympicCycle where
  "exampleCycle2 =
     \<lparr> cycDateIso = ''2026-02-11'',
       cycScoreboard = Response 503 None,
       cycResultsPage = JArr [],
       cycLookupAt = (\<lambda>i. 61000 + int i),
       cycSavedAt = 61500,
       cycStamp = ''2026-02-11T19:01:01.500Z'' \<rparr>"

definition afterCycle1 :: helper where
  "afterCycle1 =
     fst (fetchOlympicHockeyGames (\<lambda>v. None) (\<lambda>v. None) start ''olympic_mhockey'' exampleCycle1)"

section \<open>The target date\<close>

record targetDate =
  dateIso :: string
  dateCompact :: string

definition mkTargetDate :: "string \<Rightarrow> targetDate" where
  "mkTargetDate d = \<lparr> dateIso = d, dateCompact = filter (\<lambda>c. c \<noteq> CHR ''-'') d \<rparr>"

text \<open>
  \<open>_getTargetDate(options)\<close>. \<open>localDate\<close> and \<open>timeCT\<close> are the strings that
  \<open>now.toLocaleDateString("en-CA", {timeZone: tz})\<close> and \<open>now.toLocaleTimeString("en-GB",
  {timeZone: tz, hour12: false, hour: "2-digit", minute: "2-digit"})\<close> return for the
  configured zone: the local calendar date as \<open>YYYY-MM-DD\<close> and the local time of day
  as \<open>HH:MM\<close>. \<open>toISOString\<close> throws a \<open>RangeError\<close> on an invalid date.
\<close>

definition getTargetDate ::
    "(int \<Rightarrow> bool \<Rightarrow> int) \<Rightarrow> jv \<Rightarrow> string \<Rightarrow> string \<Rightarrow> error + targetDate" where
  "getTargetDate LocalTZA options localDate timeCT =
     (let opts = (if truthy options \<and> typeofObject options then options else JObj []);
          usePreviousDayEarly = (get opts ''usePreviousDayEarly'' \<noteq> JBool False);
          pieces = splitChar CHR '':'' timeCT;
          h = parseInt (piece pieces 0);
          m = parseInt (piece pieces 1);
          early = (case h of
                     None \<Rightarrow> False
                   | Some hv \<Rightarrow> hv < 9 \<or> (hv = 9 \<and> (case m of None \<Rightarrow> False | Some mv \<Rightarrow> mv < 30)))
      in if usePreviousDayEarly \<and> early then
           (case parseIsoDate localDate of
              None \<Rightarrow> Inl RangeError
            | Some dt \<Rightarrow>
                (case setDate LocalTZA dt (getDate LocalTZA dt - 1) of
                   None \<Rightarrow> Inl RangeError
                 | Some dt' \<Rightarrow> Inr (mkTargetDate (take 10 (toISOString dt')))))
         else Inr (mkTargetDate localDate))"

text \<open>
  \<open>LocalTZA\<close> of a process in the zone America/Chicago around the end of daylight
  saving time on 2024-11-03, 07:00 UTC (02:00 local): five hours behind UTC before it,
  six hours behind after it.
\<close>

definition chicagoAutumn2024 :: "int \<Rightarrow> bool \<Rightarrow> int" where
  "chicagoAutumn2024 t isUTC =
     (if isUTC then (if t < 1730617200000 then - 18000000 else - 21600000)
      else (if t < 1730599200000 then - 18000000 else - 21600000))"

definition utcZone :: "int \<Rightarrow> bool \<Rightarrow> int" where
  "utcZone t isUTC = 0"

section \<open>Properties of the final-game detail string\<close>

text \<open>
  Claim C7, as the specification states it, fails in one case: it gives \<open>Final/OT\<close>
  to an overtime period whose number is at most 4 and \<open>Final\<close> to every case it does
  not list, but a descriptor of type \<open>OT\<close> that carries no period number yields
  \<open>Final/OT\<close>.
\<close>

theorem nhl_final_detail_missing_number_counterexample:
  "finalDetailType (JObj [(''periodType'', JStr ''OT'')]) = ''OT'' \<and>
   finalDetailNumber (\<lambda>v. None) (JObj [(''periodType'', JStr ''OT'')]) = None \<and>
   nhlScoreboardFinalDetail (\<lambda>v. None) (JObj [(''periodType'', JStr ''OT'')]) = ''Final/OT''"
  by code_simp

text \<open>
  Claim C7, amended. The NHL final-detail derivation compares the upper-cased period
  type. It returns \<open>Final/SO\<close> when the type is \<open>SO\<close>; when the type is \<open>OT\<close>, it
  returns \<open>Final/<n-3>OT\<close> for a period number \<open>n\<close> greater than 4 and \<open>Final/OT\<close>
  otherwise, that is for a period number of at most 4 and for none; and it returns
  \<open>Final\<close> for every other period type. The descriptor \<open>{number: 5, periodType: "OT"}\<close>
  yields exactly \<open>Final/2OT\<close>.
\<close>

theorem nhl_final_detail:
  "(finalDetailType pd = ''SO'' \<longrightarrow> nhlScoreboardFinalDetail coerce pd = ''Final/SO'') \<and>
   (finalDetailType pd = ''OT'' \<and> finalDetailNumber coerce pd = Some n \<and> 4 < n \<longrightarrow>
      nhlScoreboardFinalDetail coerce pd = ''Final/'' @ showInt (n - 3) @ ''OT'') \<and>
   (finalDetailType pd = ''OT'' \<and> finalDetailNumber coerce pd = Some n \<and> n \<le> 4 \<longrightarrow>
      nhlScoreboardFinalDetail coerce pd = ''Final/OT'') \<and>
   (finalDetailType pd = ''OT'' \<and> finalDetailNumber coerce pd = None \<longrightarrow>
      nhlScoreboardFinalDetail coerce pd = ''Final/OT'') \<and>
   (finalDetailType pd \<noteq> ''SO'' \<and> finalDetailType pd \<noteq> ''OT'' \<longrightarrow>
      nhlScoreboardFinalDetail coerce pd = ''Final'') \<and>
   nhlScoreboardFinalDetail coerce (JObj [(''number'', JNum 5), (''periodType'', JStr ''OT'')])
     = ''Final/2OT''"
proof -
  have ex: "nhlScoreboardFinalDetail coerce
      (JObj [(''number'', JNum 5), (''periodType'', JStr ''OT'')]) = ''Final/2OT''"
    by code_simp
  show ?thesis
    using ex by (simp add: nhlScoreboardFinalDetail_def Let_def)
qed

theorem nhl_final_detail_witness:
  "finalDetailType (JObj [(''periodType'', JStr ''SO''), (''number'', JNum 5)]) = ''SO'' \<and>
   nhlScoreboardFinalDetail (\<lambda>v. None)
     (JObj [(''periodType'', JStr ''SO''), (''number'', JNum 5)]) = ''Final/SO'' \<and>
   finalDetailType (JObj [(''periodType'', JStr ''OT''), (''number'', JNum 4)]) = ''OT'' \<and>
   finalDetailNumber (\<lambda>v. None)
     (JObj [(''periodType'', JStr ''OT''), (''number'', JNum 4)]) = Some 4 \<and>
   nhlScoreboardFinalDetail (\<lambda>v. None)
     (JObj [(''periodType'', JStr ''OT''), (''number'', JNum 4)]) = ''Final/OT'' \<and>
   finalDetailType (JObj [(''periodType'', JStr ''ot''), (''number'', JNum 6)]) = ''OT'' \<and>
   finalDetailNumber (\<lambda>v. None)
     (JObj [(''periodType'', JStr ''ot''), (''number'', JNum 6)]) = Some 6 \<and>
   nhlScoreboardFinalDetail (\<lambda>v. None)
     (JObj [(''periodType'', JStr ''ot''), (''number'', JNum 6)]) = ''Final/3OT'' \<and>
   finalDetailType (JObj [(''periodType'', JStr ''OT''), (''number'', JStr ''n/a'')]) = ''OT'' \<and>
   finalDetailNumber (\<lambda>v. None)
     (JObj [(''periodType'', JStr ''OT''), (''number'', JStr ''n/a'')]) = None \<and>
   nhlScoreboardFinalDetail (\<lambda>v. None)
     (JObj [(''periodType'', JStr ''OT''), (''number'', JStr ''n/a'')]) = ''Final/OT'' \<and>
   finalDetailType (JObj [(''periodType'', JStr ''REG''), (''number'', JNum 3)]) = ''REG'' \<and>
   nhlScoreboardFinalDetail (\<lambda>v. None)
     (JObj [(''periodType'', JStr ''REG''), (''number'', JNum 3)]) = ''Final''"
proof -
  have t1: "finalDetailType (JObj [(''periodType'', JStr ''SO''), (''number'', JNum 5)]) = ''SO''"
    by code_simp
  have t2: "finalDetailType (JObj [(''periodType'', JStr ''OT''), (''number'', JNum 4)]) = ''OT''"
    by code_simp
  have n2: "finalDetailNumber (\<lambda>v. None)
      (JObj [(''periodType'', JStr ''OT''), (''number'', JNum 4)]) = Some 4"
    by code_simp
  have t3: "finalDetailType (JObj [(''periodType'', JStr ''ot''), (''number'', JNum 6)]) = ''OT''"
    by code_simp
  have n3: "finalDetailNumber (\<lambda>v. None)
      (JObj [(''periodType'', JStr ''ot''), (''number'', JNum 6)]) = Some 6"
    by code_simp
  have s3: "showInt (6 - 3) = ''3''"
    by code_simp
  have t4: "finalDetailType (JObj [(''periodType'', JStr ''REG''), (''number'', JNum 3)]) = ''REG''"
    by code_simp
  have t5: "finalDetailType (JObj [(''periodType'', JStr ''OT''), (''number'', JStr ''n/a'')]) = ''OT''"
    by code_simp
  have n5: "finalDetailNumber (\<lambda>v. None)
      (JObj [(''periodType'', JStr ''OT''), (''number'', JStr ''n/a'')]) = None"
    by code_simp
  note a = nhl_final_detail [of "JObj [(''periodType'', JStr ''SO''), (''number'', JNum 5)]" "\<lambda>v. None" 0]
  note b = nhl_final_detail [of "JObj [(''periodType'', JStr ''OT''), (''number'', JNum 4)]" "\<lambda>v. None" 4]
  note c = nhl_final_detail [of "JObj [(''periodType'', JStr ''ot''), (''number'', JNum 6)]" "\<lambda>v. None" 6]
  note d = nhl_final_detail [of "JObj [(''periodType'', JStr ''REG''), (''number'', JNum 3)]" "\<lambda>v. None" 0]
  note e = nhl_final_detail [of "JObj [(''periodType'', JStr ''OT''), (''number'', JStr ''n/a'')]" "\<lambda>v. None" 0]
  show ?thesis
    using a b c d e t1 t2 n2 t3 n3 s3 t4 t5 n5 by simp
qed

section \<open>Properties of the league configuration and of the notification\<close>

lemma coerceTokens_supported:
  "set normalized \<subseteq> set SUPPORTED_LEAGUES \<Longrightarrow>
   set (coerceTokens tokens normalized) \<subseteq> set SUPPORTED_LEAGUES"
  by (induction tokens arbitrary: normalized) (auto simp: Let_def)

lemma coerceLeagueArray_supported:
  "set (coerceLeagueArray input) \<subseteq> set SUPPORTED_LEAGUES"
  unfolding coerceLeagueArray_def by (rule coerceTokens_supported) simp

lemma getLeague_supported:
  assumes "leaguesSupported h"
  shows "getLeague h \<in> set SUPPORTED_LEAGUES"
proof (cases "\<exists>l ls. leagues h = Some (l # ls)")
  case True
  then obtain l ls where e: "leagues h = Some (l # ls)" by blast
  with assms have "l \<in> set SUPPORTED_LEAGUES" by (simp add: leaguesSupported_def)
  with e show ?thesis by (simp add: getLeague_def)
next
  case False
  then have g: "getLeague h = (case coerceLeagueArray (configuredSource h) of
                l # ls \<Rightarrow> l | [] \<Rightarrow> ''mlb'')"
    by (auto simp: getLeague_def split: option.splits list.splits)
  show ?thesis
  proof (cases "coerceLeagueArray (configuredSource h)")
    case Nil
    with g show ?thesis by (simp add: SUPPORTED_LEAGUES_def)
  next
    case (Cons l ls)
    with coerceLeagueArray_supported [of "configuredSource h"] g show ?thesis by simp
  qed
qed

lemma supported_lowercase:
  "l \<in> set SUPPORTED_LEAGUES \<Longrightarrow> toLowerCase l = l"
  by (auto simp: SUPPORTED_LEAGUES_def toLowerCase_def toLowerChar_def)

lemma init_keeps_supported:
  assumes "leaguesSupported h"
  shows "leaguesSupported (fst (socketNotificationReceived h notification payload))"
proof (cases "notification = ''INIT''")
  case False
  with assms show ?thesis by (simp add: socketNotificationReceived_def)
next
  case True
  let ?h1 = "h\<lparr> config := jor payload (JObj []) \<rparr>"
  let ?h2 = "?h1\<lparr> leagues := Some (resolveConfiguredLeagues ?h1) \<rparr>"
  have s2: "leaguesSupported ?h2"
    using coerceLeagueArray_supported [of "configuredSource ?h1"]
    by (simp add: leaguesSupported_def resolveConfiguredLeagues_def)
  have "getLeague ?h2 \<in> set SUPPORTED_LEAGUES"
    by (rule getLeague_supported [OF s2])
  then have s3: "leaguesSupported (?h2\<lparr> leagues := Some [getLeague ?h2] \<rparr>)"
    by (simp add: leaguesSupported_def)
  have r: "fst (socketNotificationReceived h notification payload) =
      (if leagues ?h2 = Some [] then ?h2\<lparr> leagues := Some [getLeague ?h2] \<rparr> else ?h2)"
    using True by (simp add: socketNotificationReceived_def Let_def)
  show ?thesis
    unfolding r using s2 s3 by (cases "leagues ?h2 = Some []") simp_all
qed

lemma map_of_objSet:
  "map_of (objSet kvs k v) k' = (if k' = k then Some v else map_of kvs k')"
  by (induction kvs) auto

lemma map_of_foldl_objSet:
  "k' \<notin> set (map fst es) \<Longrightarrow>
   map_of (foldl (\<lambda>p (k, v). objSet p k v) kvs es) k' = map_of kvs k'"
  by (induction es arbitrary: kvs) (auto simp: map_of_objSet)

lemma notify_games_field:
  assumes "\<not> hasOwn extras ''games''"
  shows "isArray (get (notifyGames h league games extras) ''games'')"
proof -
  define ng where "ng = (if isArray games then games
                             else if truthy games \<and> typeofObject games \<and> isArray (get games ''games'')
                               then get games ''games''
                             else JArr [])"
  have a: "isArray ng" by (simp add: ng_def)
  have "get (notifyGames h league games extras) ''games'' = ng"
    using assms
    by (simp add: notifyGames_def Let_def ng_def hasOwn_def map_of_foldl_objSet)
  with a show ?thesis by simp
qed

lemma notify_league_field:
  assumes "leaguesSupported h" "\<not> hasOwn extras ''league''"
  shows "\<exists>l \<in> set SUPPORTED_LEAGUES.
           get (notifyGames h league games extras) ''league'' = JStr l \<and> toLowerCase l = l"
proof -
  define nl where "nl = (case normalizeLeagueKey league of Some l \<Rightarrow> l | None \<Rightarrow> getLeague h)"
  have a: "nl \<in> set SUPPORTED_LEAGUES"
    using getLeague_supported [OF assms(1)]
    by (auto simp: nl_def normalizeLeagueKey_def Let_def split: option.splits if_splits)
  have "get (notifyGames h league games extras) ''league'' = JStr nl"
    using assms(2)
    by (simp add: notifyGames_def Let_def nl_def hasOwn_def map_of_foldl_objSet)
  with a supported_lowercase [OF a] show ?thesis by blast
qed

text \<open>
  Claim C10. \<open>this.leagues\<close> holds supported league keys only: in the state set up by
  \<open>start\<close>, and after every socket notification. In such a state, for every league
  value and every games argument of any shape, and for extras that carry no property
  named \<open>league\<close> or \<open>games\<close> (as at every call site), the payload sent downstream
  has a \<open>games\<close> field that is an array and a \<open>league\<close> field that is one of the six
  supported league keys, in lower case.
\<close>

theorem notify_payload_shape:
  "leaguesSupported start \<and>
   (leaguesSupported h \<longrightarrow>
      leaguesSupported (fst (socketNotificationReceived h notification payload))) \<and>
   (leaguesSupported h \<and> \<not> hasOwn extras ''league'' \<and> \<not> hasOwn extras ''games'' \<longrightarrow>
      isArray (get (notifyGames h league games extras) ''games'') \<and>
      (\<exists>l \<in> set SUPPORTED_LEAGUES.
         get (notifyGames h league games extras) ''league'' = JStr l \<and> toLowerCase l = l))"
proof -
  have "leaguesSupported start"
    by (simp add: leaguesSupported_def start_def)
  then show ?thesis
    using init_keeps_supported notify_games_field notify_league_field by blast
qed

theorem notify_payload_shape_witness:
  "leaguesSupported start \<and>
   leaguesSupported (fst (socketNotificationReceived start ''INIT''
      (JObj [(''league'', JStr ''nfl, NHL'')]))) \<and>
   \<not> hasOwn (JObj [(''teamsOnBye'', JArr [])]) ''league'' \<and>
   \<not> hasOwn (JObj [(''teamsOnBye'', JArr [])]) ''games'' \<and>
   isArray (get (notifyGames start (JNum 7) (JObj [(''games'', JArr [JNum 1])])
      (JObj [(''teamsOnBye'', JArr [])])) ''games'') \<and>
   (\<exists>l \<in> set SUPPORTED_LEAGUES.
      get (notifyGames start (JNum 7) (JObj [(''games'', JArr [JNum 1])])
        (JObj [(''teamsOnBye'', JArr [])])) ''league'' = JStr l \<and> toLowerCase l = l)"
proof -
  have a: "\<not> hasOwn (JObj [(''teamsOnBye'', JArr [])]) ''league''"
    by (simp add: hasOwn_def)
  have b: "\<not> hasOwn (JObj [(''teamsOnBye'', JArr [])]) ''games''"
    by (simp add: hasOwn_def)
  show ?thesis
    using a b notify_payload_shape [of start "''INIT''" "JObj [(''league'', JStr ''nfl, NHL'')]"
        "JObj [(''teamsOnBye'', JArr [])]" "JNum 7" "JObj [(''games'', JArr [JNum 1])]"]
    by simp
qed

text \<open>
  Claim C9, as the specification states it, fails: a configuration whose only league
  token is unrecognised resolves to zero leagues, and the \<open>INIT\<close> handler replaces
  the league list by the default league \<open>mlb\<close> and starts the MLB fetch.
\<close>

theorem init_no_leagues_counterexample:
  "resolveConfiguredLeagues
     (start\<lparr> config := JObj [(''leagues'', JArr [JStr ''cricket''])] \<rparr>) = [] \<and>
   leagues (fst (socketNotificationReceived start ''INIT''
      (JObj [(''leagues'', JArr [JStr ''cricket''])]))) = Some [''mlb''] \<and>
   snd (socketNotificationReceived start ''INIT''
      (JObj [(''leagues'', JArr [JStr ''cricket''])])) = [FetchMlbGames]"
  by code_simp

text \<open>
  Claim C9, amended. When the supplied configuration resolves to zero leagues (empty,
  missing, or containing only unrecognised league tokens), the \<open>INIT\<close> handler
  replaces the league list by the single default league \<open>mlb\<close>, whatever the state
  before, and the poll that it starts calls the MLB fetcher and no other.
\<close>

theorem init_no_leagues_defaults:
  assumes "resolveConfiguredLeagues (h\<lparr> config := jor payload (JObj []) \<rparr>) = []"
  shows "socketNotificationReceived h ''INIT'' payload =
     (h\<lparr> config := jor payload (JObj []), leagues := Some [''mlb''] \<rparr>, [FetchMlbGames])"
proof -
  let ?h1 = "h\<lparr> config := jor payload (JObj []) \<rparr>"
  let ?h2 = "?h1\<lparr> leagues := Some [] \<rparr>"
  have c: "configuredSource ?h2 = configuredSource ?h1"
    by (simp add: configuredSource_def)
  have "coerceLeagueArray (configuredSource ?h1) = []"
    using assms by (simp add: resolveConfiguredLeagues_def)
  with c have g: "getLeague ?h2 = ''mlb''"
    by (simp add: getLeague_def)
  have f: "fetchGames (?h2\<lparr> leagues := Some [''mlb''] \<rparr>) = [FetchMlbGames]"
    by (simp add: fetchGames_def fetcherFor_def)
  show ?thesis
    using assms g f by (simp add: socketNotificationReceived_def Let_def)
qed

theorem init_no_leagues_defaults_witness:
  "resolveConfiguredLeagues (start\<lparr> config := jor JUndef (JObj []) \<rparr>) = [] \<and>
   socketNotificationReceived start ''INIT'' JUndef =
     (start\<lparr> config := jor JUndef (JObj []), leagues := Some [''mlb''] \<rparr>, [FetchMlbGames])"
proof -
  have a: "resolveConfiguredLeagues (start\<lparr> config := jor JUndef (JObj []) \<rparr>) = []"
    by code_simp
  show ?thesis
    using a init_no_leagues_defaults [OF a] by simp
qed

section \<open>Properties of the Olympic normalizer\<close>

lemma set_insertBy: "set (insertBy compare x xs) = insert x (set xs)"
  by (induction xs) auto

lemma set_sortBy: "set (sortBy compare xs) = set xs"
  by (induction xs) (auto simp: set_insertBy)

lemma length_insertBy: "length (insertBy compare x xs) = Suc (length xs)"
  by (induction xs) auto

lemma length_sortBy: "length (sortBy compare xs) = length xs"
  by (induction xs) (auto simp: length_insertBy)

lemma toUpperChar_idem: "toUpperChar (toUpperChar c) = toUpperChar c"
proof -
  define n :: nat where "n = of_char c"
  show ?thesis
  proof (cases "97 \<le> n \<and> n \<le> 122")
    case True
    then have u: "toUpperChar c = char_of (n - 32)"
      by (simp add: toUpperChar_def Let_def n_def)
    have lt: "n - 32 < 256" using True by arith
    have "(of_char (char_of (n - 32)) :: nat) = (n - 32) mod 256"
      by simp
    also have "\<dots> = n - 32"
      using lt by (rule mod_less)
    finally have m: "(of_char (toUpperChar c) :: nat) = n - 32"
      using u by simp
    have "\<not> 97 \<le> n - 32" using True by arith
    then show ?thesis
      unfolding toUpperChar_def [of "toUpperChar c"] Let_def m by simp
  next
    case False
    then have "toUpperChar c = c"
      by (auto simp: toUpperChar_def Let_def n_def)
    then show ?thesis by simp
  qed
qed

lemma toUpperCase_idem: "toUpperCase (toUpperCase s) = toUpperCase s"
  by (simp add: toUpperCase_def toUpperChar_idem)

lemma toUpperCase_take: "toUpperCase (take n s) = take n (toUpperCase s)"
  by (simp add: toUpperCase_def take_map)

lemma normalizeOlympicTeam_Some:
  assumes "normalizeOlympicTeam competitor = Some t"
  shows "length (code3 t) \<le> 3 \<and> toUpperCase (code3 t) = code3 t \<and>
         (truthy (name t) \<or> code3 t \<noteq> [])"
proof -
  define team where "team = jor (jand competitor (get competitor ''team'')) (JObj [])"
  define s where "s = trim (jsString
     (jor (jor (get team ''abbreviation'') (get team ''shortDisplayName'')) (JStr '''')))"
  define nm where "nm = jor (jor (jor (jor (get team ''displayName'') (get team ''shortDisplayName''))
                               (get team ''name''))
                          (get competitor ''displayName''))
                     (JStr '''')"
  have e: "(if \<not> truthy nm \<and> take 3 (toUpperCase s) = [] then None
            else Some \<lparr> code3 = take 3 (toUpperCase s), name = nm,
                     score = (if truthy competitor \<and> get competitor ''score'' \<noteq> JUndef
                                   \<and> get competitor ''score'' \<noteq> JNull
                              then jsString (get competitor ''score'') else '''') \<rparr>) = Some t"
    using assms unfolding normalizeOlympicTeam_def Let_def team_def s_def nm_def .
  then have c: "code3 t = take 3 (toUpperCase s)" and n: "name t = nm"
      and ne: "truthy nm \<or> take 3 (toUpperCase s) \<noteq> []"
    by (auto split: if_splits)
  from c have "toUpperCase (code3 t) = code3 t"
    by (simp add: toUpperCase_take toUpperCase_idem)
  with c n ne show ?thesis by simp
qed

lemma normalizeOlympicStatus_values:
  "nsStatus (normalizeOlympicStatus statusObj) \<in> {''pre'', ''live'', ''final''}"
  by (simp add: normalizeOlympicStatus_def Let_def)

lemma olympicGameFromEvent_Some:
  assumes "olympicGameFromEvent lk provider fetchedAt i element = Some g"
  shows "(\<exists>c. normalizeOlympicTeam c = Some (home g)) \<and>
         (\<exists>c. normalizeOlympicTeam c = Some (away g)) \<and>
         (\<exists>s. status g = nsStatus (normalizeOlympicStatus s))"
proof -
  define event where "event = jor element (JObj [])"
  define competition where "competition = eventCompetition event"
  define competitors where "competitors = competitionCompetitors competition"
  define hc where "hc = homeCompetitor competitors"
  define ac where "ac = awayCompetitor competitors"
  define so where "so = jor (jor (get event ''status'') (jand competition (get competition ''status'')))
                            (JObj [])"
  have e: "(if length competitors < 2 then None
            else case normalizeOlympicTeam hc of
                 None \<Rightarrow> None
               | Some homeTeam \<Rightarrow>
                   (case normalizeOlympicTeam ac of
                      None \<Rightarrow> None
                    | Some awayTeam \<Rightarrow>
                        Some (pushedGame lk provider fetchedAt i event competition
                                (normalizeOlympicStatus so) homeTeam awayTeam))) = Some g"
    using assms
    unfolding olympicGameFromEvent_def Let_def event_def competition_def competitors_def
      hc_def ac_def so_def .
  then obtain h a where h: "normalizeOlympicTeam hc = Some h"
      and a: "normalizeOlympicTeam ac = Some a"
      and g: "g = pushedGame lk provider fetchedAt i event competition
                    (normalizeOlympicStatus so) h a"
    by (auto split: if_splits option.splits)
  from g have "home g = h" "away g = a" "status g = nsStatus (normalizeOlympicStatus so)"
    by (simp_all add: pushedGame_def)
  with h a show ?thesis by metis
qed

lemma olympicGamesLoop_member:
  "g \<in> set (olympicGamesLoop lk provider fetchedAt i eventList) \<Longrightarrow>
   \<exists>j element. olympicGameFromEvent lk provider fetchedAt j element = Some g"
  by (induction eventList arbitrary: i) (auto split: option.splits)

lemma normalized_member:
  assumes "g \<in> set (normalizedOlympicGamesFromEvents newDate fetchedAt events lk provider)"
  shows "\<exists>j element. olympicGameFromEvent lk provider fetchedAt j element = Some g"
  using assms olympicGamesLoop_member
  unfolding normalizedOlympicGamesFromEvents_def set_sortBy by blast

text \<open>
  Claim C6. For every game that the Olympic normalizer produces from any raw event
  list, \<open>home.code3\<close> and \<open>away.code3\<close> are upper case (unchanged by
  \<open>toUpperCase\<close>) and at most 3 characters long, and \<open>status\<close> is one of \<open>pre\<close>,
  \<open>live\<close>, \<open>final\<close>.
\<close>

theorem olympic_codes_and_status:
  "\<forall>g \<in> set (normalizedOlympicGamesFromEvents newDate fetchedAt events lk provider).
     toUpperCase (code3 (home g)) = code3 (home g) \<and> length (code3 (home g)) \<le> 3 \<and>
     toUpperCase (code3 (away g)) = code3 (away g) \<and> length (code3 (away g)) \<le> 3 \<and>
     status g \<in> {''pre'', ''live'', ''final''}"
proof
  fix g
  assume "g \<in> set (normalizedOlympicGamesFromEvents newDate fetchedAt events lk provider)"
  then obtain j element where "olympicGameFromEvent lk provider fetchedAt j element = Some g"
    using normalized_member by blast
  then obtain hc ac s where h: "normalizeOlympicTeam hc = Some (home g)"
      and a: "normalizeOlympicTeam ac = Some (away g)"
      and s: "status g = nsStatus (normalizeOlympicStatus s)"
    using olympicGameFromEvent_Some by blast
  show "toUpperCase (code3 (home g)) = code3 (home g) \<and> length (code3 (home g)) \<le> 3 \<and>
     toUpperCase (code3 (away g)) = code3 (away g) \<and> length (code3 (away g)) \<le> 3 \<and>
     status g \<in> {''pre'', ''live'', ''final''}"
    using normalizeOlympicTeam_Some [OF h] normalizeOlympicTeam_Some [OF a]
      normalizeOlympicStatus_values [of s] s
    by simp
qed

theorem olympic_codes_and_status_witness:
  "map (\<lambda>g. (code3 (home g), code3 (away g), status g))
     (normalizedOlympicGamesFromEvents (\<lambda>v. None) ''T''
        (JArr [JObj [(''id'', JStr ''401''), (''date'', JStr ''2026-02-11T20:00Z''),
           (''status'', JObj [(''type'', JObj [(''state'', JStr ''in'')])]),
           (''competitions'', JArr [JObj [(''competitors'', JArr
              [JObj [(''homeAway'', JStr ''home''), (''score'', JNum 2),
                     (''team'', JObj [(''abbreviation'', JStr '' can ''),
                                      (''displayName'', JStr ''Canada'')])],
               JObj [(''homeAway'', JStr ''away''),
                     (''team'', JObj [(''shortDisplayName'', JStr ''Sweden'')])]])]])]])
        ''olympic_mhockey'' ''espn_mens_olympics'')
     = [(''CAN'', ''SWE'', ''live'')] \<and>
   toUpperCase ''CAN'' = ''CAN'' \<and> length ''CAN'' \<le> 3 \<and>
   toUpperCase ''SWE'' = ''SWE'' \<and> length ''SWE'' \<le> 3 \<and>
   ''live'' \<in> {''pre'', ''live'', ''final''}"
proof -
  let ?out = "normalizedOlympicGamesFromEvents (\<lambda>v. None) ''T''
        (JArr [JObj [(''id'', JStr ''401''), (''date'', JStr ''2026-02-11T20:00Z''),
           (''status'', JObj [(''type'', JObj [(''state'', JStr ''in'')])]),
           (''competitions'', JArr [JObj [(''competitors'', JArr
              [JObj [(''homeAway'', JStr ''home''), (''score'', JNum 2),
                     (''team'', JObj [(''abbreviation'', JStr '' can ''),
                                      (''displayName'', JStr ''Canada'')])],
               JObj [(''homeAway'', JStr ''away''),
                     (''team'', JObj [(''shortDisplayName'', JStr ''Sweden'')])]])]])]])
        ''olympic_mhockey'' ''espn_mens_olympics''"
  have e: "map (\<lambda>g. (code3 (home g), code3 (away g), status g)) ?out
             = [(''CAN'', ''SWE'', ''live'')]"
    by code_simp
  then obtain g where g: "?out = [g]" by auto
  with e have v: "code3 (home g) = ''CAN''" "code3 (away g) = ''SWE''" "status g = ''live''"
    by simp_all
  have "g \<in> set ?out" using g by simp
  from bspec [OF olympic_codes_and_status this] v e show ?thesis
    by simp
qed

lemma olympicGameFromEvent_None:
  "olympicGameFromEvent lk provider fetchedAt i element = None \<longleftrightarrow>
     (let competitors = competitionCompetitors (eventCompetition (jor element (JObj [])))
      in length competitors < 2 \<or>
         normalizeOlympicTeam (homeCompetitor competitors) = None \<or>
         normalizeOlympicTeam (awayCompetitor competitors) = None)"
  by (auto simp: olympicGameFromEvent_def Let_def split: option.splits)

lemma set_olympicGamesLoop:
  "set (olympicGamesLoop lk provider fetchedAt i es) =
     {g. \<exists>j<length es. olympicGameFromEvent lk provider fetchedAt (i + j) (es ! j) = Some g}"
proof (induction es arbitrary: i)
  case Nil
  show ?case by simp
next
  case (Cons e es)
  have s: "{g. \<exists>j<length (e # es). olympicGameFromEvent lk provider fetchedAt (i + j) ((e # es) ! j) = Some g} =
        {g. olympicGameFromEvent lk provider fetchedAt i e = Some g} \<union>
        {g. \<exists>j<length es. olympicGameFromEvent lk provider fetchedAt (i + 1 + j) (es ! j) = Some g}"
    by (auto simp: less_Suc_eq_0_disj)
  show ?case
    unfolding s using Cons.IH [of "i + 1"]
    by (auto split: option.splits)
qed

lemma length_olympicGamesLoop:
  "length (olympicGamesLoop lk provider fetchedAt i es) =
     length (filter (\<lambda>j. olympicGameFromEvent lk provider fetchedAt (i + j) (es ! j) \<noteq> None)
               [0 ..< length es])"
proof (induction es arbitrary: i)
  case Nil
  show ?case by simp
next
  case (Cons e es)
  have u: "[0 ..< length (e # es)] = 0 # map Suc [0 ..< length es]"
    by (simp add: upt_conv_Cons map_Suc_upt del: upt_Suc)
  show ?case
    unfolding u using Cons.IH [of "i + 1"]
    by (auto simp: filter_map comp_def split: option.splits)
qed


text \<open>
  Claim C5, as the specification states it, fails: a competitor with no team data
  yields no Team record, and the event whose away competitor it is yields no Game.
\<close>

theorem olympic_missing_team_counterexample:
  "normalizeOlympicTeam (JObj [(''homeAway'', JStr ''away'')]) = None \<and>
   normalizedOlympicGamesFromEvents (\<lambda>v. None) ''T''
     (JArr [JObj [(''id'', JStr ''401''),
        (''competitions'', JArr [JObj [(''competitors'', JArr
           [JObj [(''homeAway'', JStr ''home''),
                  (''team'', JObj [(''abbreviation'', JStr ''CAN''),
                                   (''displayName'', JStr ''Canada'')])],
            JObj [(''homeAway'', JStr ''away'')]])]])]])
     ''olympic_mhockey'' ''espn_mens_olympics'' = []"
  by code_simp

text \<open>
  Claim C5, amended. In the Olympic normalizer, a competitor with missing team data
  (no \<open>team\<close> and no \<open>displayName\<close>) produces no Team record. An event produces
  no Game exactly when it has fewer than two competitors, or when the competitor
  selected for its home side (the first one marked \<open>home\<close>, else the first
  competitor) or the one selected for its away side (the first one marked \<open>away\<close>,
  else the second competitor) produces no Team record; so a competitor without team
  data that is selected for neither side does not prevent the Game. The output holds
  the Games of the other events, one for each, and nothing else, and every Game in it
  has a home and an away Team with a non-empty name or a non-empty code.
\<close>

theorem olympic_missing_team_dropped:
  "(\<not> truthy (get competitor ''team'') \<and> \<not> truthy (get competitor ''displayName'') \<longrightarrow>
      normalizeOlympicTeam competitor = None) \<and>
   (olympicGameFromEvent lk provider fetchedAt i element = None \<longleftrightarrow>
      (let competitors = competitionCompetitors (eventCompetition (jor element (JObj [])))
       in length competitors < 2 \<or>
          normalizeOlympicTeam (homeCompetitor competitors) = None \<or>
          normalizeOlympicTeam (awayCompetitor competitors) = None)) \<and>
   set (normalizedOlympicGamesFromEvents newDate fetchedAt (JArr es) lk provider) =
     {g. \<exists>j<length es. olympicGameFromEvent lk provider fetchedAt j (es ! j) = Some g} \<and>
   length (normalizedOlympicGamesFromEvents newDate fetchedAt (JArr es) lk provider) =
     length (filter (\<lambda>j. olympicGameFromEvent lk provider fetchedAt j (es ! j) \<noteq> None)
               [0 ..< length es]) \<and>
   (\<forall>g \<in> set (normalizedOlympicGamesFromEvents newDate fetchedAt events lk provider).
      (truthy (name (home g)) \<or> code3 (home g) \<noteq> []) \<and>
      (truthy (name (away g)) \<or> code3 (away g) \<noteq> []))"
proof -
  have a: "\<not> truthy (get competitor ''team'') \<and> \<not> truthy (get competitor ''displayName'') \<longrightarrow>
      normalizeOlympicTeam competitor = None"
    by (simp add: normalizeOlympicTeam_def Let_def jor_def jand_def trim_def toUpperCase_def)
  have b: "(truthy (name (home g)) \<or> code3 (home g) \<noteq> []) \<and>
      (truthy (name (away g)) \<or> code3 (away g) \<noteq> [])"
    if mem: "g \<in> set (normalizedOlympicGamesFromEvents newDate fetchedAt events lk provider)" for g
  proof -
    obtain j element where "olympicGameFromEvent lk provider fetchedAt j element = Some g"
      using mem normalized_member by blast
    then obtain hc ac where h: "normalizeOlympicTeam hc = Some (home g)"
      and a: "normalizeOlympicTeam ac = Some (away g)"
      using olympicGameFromEvent_Some by blast
    show ?thesis
      using normalizeOlympicTeam_Some [OF h] normalizeOlympicTeam_Some [OF a] by simp
  qed
  have c: "set (normalizedOlympicGamesFromEvents newDate fetchedAt (JArr es) lk provider) =
     {g. \<exists>j<length es. olympicGameFromEvent lk provider fetchedAt j (es ! j) = Some g}"
    using set_olympicGamesLoop [of lk provider fetchedAt 0 es]
    by (simp add: normalizedOlympicGamesFromEvents_def set_sortBy)
  have d: "length (normalizedOlympicGamesFromEvents newDate fetchedAt (JArr es) lk provider) =
     length (filter (\<lambda>j. olympicGameFromEvent lk provider fetchedAt j (es ! j) \<noteq> None)
               [0 ..< length es])"
    using length_olympicGamesLoop [of lk provider fetchedAt 0 es]
    by (simp add: normalizedOlympicGamesFromEvents_def length_sortBy)
  from b have b': "\<forall>g \<in> set (normalizedOlympicGamesFromEvents newDate fetchedAt events lk provider).
      (truthy (name (home g)) \<or> code3 (home g) \<noteq> []) \<and>
      (truthy (name (away g)) \<or> code3 (away g) \<noteq> [])" by blast
  show ?thesis
    using a olympicGameFromEvent_None [of lk provider fetchedAt i element] c d b'
    by (intro conjI)
qed

theorem olympic_missing_team_dropped_witness:
  "\<not> truthy (get (JObj [(''homeAway'', JStr ''away''), (''score'', JNum 3)]) ''team'') \<and>
   \<not> truthy (get (JObj [(''homeAway'', JStr ''away''), (''score'', JNum 3)]) ''displayName'') \<and>
   normalizeOlympicTeam (JObj [(''homeAway'', JStr ''away''), (''score'', JNum 3)]) = None \<and>
   olympicGameFromEvent ''olympic_whockey'' ''espn_womens_olympics'' ''T'' 1
     (JObj [(''id'', JStr ''8''), (''competition'', JObj [(''competitors'', JArr
        [JObj [(''displayName'', JStr ''Finland'')],
         JObj [(''homeAway'', JStr ''away''), (''score'', JNum 3)]])])]) = None \<and>
   map (\<lambda>g. (gameId g, name (home g), code3 (home g), name (away g), code3 (away g)))
     (normalizedOlympicGamesFromEvents (\<lambda>v. None) ''T''
        (JArr [JObj [(''id'', JStr ''9''), (''competitions'', JArr [JObj [(''competitors'', JArr
                 [JObj [(''score'', JNum 1)],
                  JObj [(''homeAway'', JStr ''home''),
                        (''team'', JObj [(''abbreviation'', JStr ''CAN'')])]])]])],
               JObj [(''id'', JStr ''8''), (''competition'', JObj [(''competitors'', JArr
                 [JObj [(''displayName'', JStr ''Finland'')],
                  JObj [(''homeAway'', JStr ''away''), (''score'', JNum 3)]])])]])
        ''olympic_whockey'' ''espn_womens_olympics'')
     = [(''9'', JStr '''', ''CAN'', JStr '''', ''CAN'')] \<and>
   length (normalizedOlympicGamesFromEvents (\<lambda>v. None) ''T''
        (JArr [JObj [(''id'', JStr ''9''), (''competitions'', JArr [JObj [(''competitors'', JArr
                 [JObj [(''score'', JNum 1)],
                  JObj [(''homeAway'', JStr ''home''),
                        (''team'', JObj [(''abbreviation'', JStr ''CAN'')])]])]])],
               JObj [(''id'', JStr ''8''), (''competition'', JObj [(''competitors'', JArr
                 [JObj [(''displayName'', JStr ''Finland'')],
                  JObj [(''homeAway'', JStr ''away''), (''score'', JNum 3)]])])]])
        ''olympic_whockey'' ''espn_womens_olympics'') = 1"
proof -
  let ?c = "JObj [(''homeAway'', JStr ''away''), (''score'', JNum 3)]"
  let ?kept = "JObj [(''id'', JStr ''9''), (''competitions'', JArr [JObj [(''competitors'', JArr
                 [JObj [(''score'', JNum 1)],
                  JObj [(''homeAway'', JStr ''home''),
                        (''team'', JObj [(''abbreviation'', JStr ''CAN'')])]])]])]"
  let ?dropped = "JObj [(''id'', JStr ''8''), (''competition'', JObj [(''competitors'', JArr
                 [JObj [(''displayName'', JStr ''Finland'')], ?c])])]"
  let ?out = "normalizedOlympicGamesFromEvents (\<lambda>v. None) ''T'' (JArr [?kept, ?dropped])
        ''olympic_whockey'' ''espn_womens_olympics''"
  note t = olympic_missing_team_dropped [of ?c "''olympic_whockey''" "''espn_womens_olympics''"
      "''T''" 1 ?dropped "\<lambda>v. None" "[?kept, ?dropped]" "JArr [?kept, ?dropped]"]
  have p: "\<not> truthy (get ?c ''team'') \<and> \<not> truthy (get ?c ''displayName'')"
    by simp
  have q: "awayCompetitor (competitionCompetitors (eventCompetition (jor ?dropped (JObj [])))) = ?c"
    by code_simp
  from t p have n: "normalizeOlympicTeam ?c = None" by blast
  from t n q have o: "olympicGameFromEvent ''olympic_whockey'' ''espn_womens_olympics'' ''T'' 1
      ?dropped = None"
    by (simp add: Let_def)
  have f: "length (filter (\<lambda>j. olympicGameFromEvent ''olympic_whockey'' ''espn_womens_olympics''
      ''T'' j ([?kept, ?dropped] ! j) \<noteq> None) [0 ..< length [?kept, ?dropped]]) = 1"
    by code_simp
  from t f have l: "length ?out = 1" by simp
  have e: "map (\<lambda>g. (gameId g, name (home g), code3 (home g), name (away g), code3 (away g))) ?out
     = [(''9'', JStr '''', ''CAN'', JStr '''', ''CAN'')]"
    by code_simp
  from p n o e l show ?thesis by simp
qed

section \<open>Properties of the ordering of games\<close>

lemma compareDates_le: "(compareDates a b \<le> 0) = datesInOrder a b"
  by (cases a; cases b) simp_all

lemma datesInOrder_total: "\<not> datesInOrder a b \<Longrightarrow> datesInOrder b a"
  by (cases a; cases b) simp_all

lemma datesInOrder_trans: "datesInOrder a b \<Longrightarrow> datesInOrder b c \<Longrightarrow> datesInOrder a c"
  by (cases a; cases b; cases c) simp_all

lemma sorted_insertBy:
  assumes "sorted_wrt (\<lambda>a b. datesInOrder (key a) (key b)) xs"
  shows "sorted_wrt (\<lambda>a b. datesInOrder (key a) (key b))
           (insertBy (\<lambda>a b. compareDates (key a) (key b)) x xs)"
  using assms
proof (induction xs)
  case Nil
  then show ?case by simp
next
  case (Cons y ys)
  show ?case
  proof (cases "datesInOrder (key x) (key y)")
    case True
    then have "\<forall>z \<in> set ys. datesInOrder (key x) (key z)"
      using Cons.prems datesInOrder_trans by fastforce
    with True Cons.prems show ?thesis
      by (simp add: compareDates_le)
  next
    case False
    then have "datesInOrder (key y) (key x)"
      by (rule datesInOrder_total)
    with False Cons show ?thesis
      by (simp add: compareDates_le set_insertBy)
  qed
qed

lemma sorted_sortBy:
  "sorted_wrt (\<lambda>a b. datesInOrder (key a) (key b))
     (sortBy (\<lambda>a b. compareDates (key a) (key b)) xs)"
  by (induction xs) (simp_all add: sorted_insertBy)

text \<open>
  Claim C3, as the specification states it, fails: in the hydrated NHL list and in the
  normalized Olympic list alike, a game whose start date cannot be resolved comes after
  a game with a resolvable start date, not before it.
\<close>

theorem undated_games_sort_first_counterexample:
  "hydrateNhlGames
     (\<lambda>v. if v = JStr ''2026-02-11T20:00:00Z'' then Some 1770840000000 else None)
     (\<lambda>g. Inr (JObj [], JObj [], JObj []))
     (JArr [JObj [(''gamePk'', JNum 1)],
            JObj [(''gamePk'', JNum 2), (''startTimeUTC'', JStr ''2026-02-11T20:00:00Z'')]])
   = Inr [JObj [(''gamePk'', JNum 2), (''startTimeUTC'', JStr ''2026-02-11T20:00:00Z''),
                (''gameDate'', JStr ''2026-02-11T20:00:00.000Z''),
                (''status'', JObj []), (''linescore'', JObj []), (''teams'', JObj [])],
          JObj [(''gamePk'', JNum 1),
                (''status'', JObj []), (''linescore'', JObj []), (''teams'', JObj [])]] \<and>
   nhlStartDate (\<lambda>v. if v = JStr ''2026-02-11T20:00:00Z'' then Some 1770840000000 else None)
     (JObj [(''gamePk'', JNum 1),
            (''status'', JObj []), (''linescore'', JObj []), (''teams'', JObj [])]) = None \<and>
   nhlStartDate (\<lambda>v. if v = JStr ''2026-02-11T20:00:00Z'' then Some 1770840000000 else None)
     (JObj [(''gamePk'', JNum 2), (''startTimeUTC'', JStr ''2026-02-11T20:00:00Z''),
            (''gameDate'', JStr ''2026-02-11T20:00:00.000Z''),
            (''status'', JObj []), (''linescore'', JObj []), (''teams'', JObj [])])
     = Some 1770840000000 \<and>
   map (\<lambda>g. (gameId g, olympicStartDate
                 (\<lambda>v. if v = JStr ''2026-02-11T20:00:00Z'' then Some 1770840000000 else None) g))
     (normalizedOlympicGamesFromEvents
        (\<lambda>v. if v = JStr ''2026-02-11T20:00:00Z'' then Some 1770840000000 else None) ''T''
        (JArr [JObj [(''id'', JStr ''1''),
                 (''competitions'', JArr [JObj [(''competitors'', JArr
                    [JObj [(''team'', JObj [(''abbreviation'', JStr ''CAN'')])],
                     JObj [(''team'', JObj [(''abbreviation'', JStr ''USA'')])]])]])],
               JObj [(''id'', JStr ''2''), (''date'', JStr ''2026-02-11T20:00:00Z''),
                 (''competitions'', JArr [JObj [(''competitors'', JArr
                    [JObj [(''team'', JObj [(''abbreviation'', JStr ''FIN'')])],
                     JObj [(''team'', JObj [(''abbreviation'', JStr ''SWE'')])]])]])]])
        ''olympic_mhockey'' ''espn_mens_olympics'')
   = [(''2'', Some 1770840000000), (''1'', None)]"
  by code_simp

text \<open>
  Claim C3, amended. The hydrated NHL game list (where hydration does not throw) and
  the normalized Olympic game list are sorted by start time ascending, and any game
  whose start date cannot be resolved from its candidate date fields sorts after every
  game that has a resolvable start date.
\<close>

theorem games_sorted_undated_last:
  "(hydrateNhlGames newDate hydrateParts games = Inr out \<longrightarrow>
      sorted_wrt (\<lambda>a b. datesInOrder (nhlStartDate newDate a) (nhlStartDate newDate b)) out) \<and>
   sorted_wrt (\<lambda>a b. datesInOrder (olympicStartDate newDate a) (olympicStartDate newDate b))
     (normalizedOlympicGamesFromEvents newDate fetchedAt events lk provider)"
proof -
  have "sorted_wrt (\<lambda>a b. datesInOrder (nhlStartDate newDate a) (nhlStartDate newDate b)) out"
    if "hydrateNhlGames newDate hydrateParts games = Inr out"
  proof (cases "isArray games")
    case False
    with that show ?thesis by (simp add: hydrateNhlGames_def)
  next
    case True
    with that obtain hydrated where
      "out = sortBy (\<lambda>a b. compareDates (nhlStartDate newDate a) (nhlStartDate newDate b)) hydrated"
      by (auto simp: hydrateNhlGames_def split: sum.splits)
    then show ?thesis by (simp add: sorted_sortBy)
  qed
  moreover have "sorted_wrt (\<lambda>a b. datesInOrder (olympicStartDate newDate a) (olympicStartDate newDate b))
     (normalizedOlympicGamesFromEvents newDate fetchedAt events lk provider)"
    unfolding normalizedOlympicGamesFromEvents_def by (rule sorted_sortBy)
  ultimately show ?thesis by blast
qed

theorem games_sorted_undated_last_witness:
  "hydrateNhlGames
     (\<lambda>v. if v = JStr ''2026-02-11T20:00:00Z'' then Some 1770840000000
           else if v = JStr ''2026-02-11T17:00:00Z'' then Some 1770829200000 else None)
     (\<lambda>g. Inr (JObj [], JObj [], JObj []))
     (JArr [JObj [(''gamePk'', JNum 1), (''gameDate'', JStr ''2026-02-11T20:00:00Z'')],
            JObj [(''gamePk'', JNum 2), (''startTimeUTC'', JStr ''TBD'')],
            JObj [(''gamePk'', JNum 3), (''startTimeUTC'', JStr ''2026-02-11T17:00:00Z'')]])
   = Inr [JObj [(''gamePk'', JNum 3), (''startTimeUTC'', JStr ''2026-02-11T17:00:00Z''),
                (''gameDate'', JStr ''2026-02-11T17:00:00.000Z''),
                (''status'', JObj []), (''linescore'', JObj []), (''teams'', JObj [])],
          JObj [(''gamePk'', JNum 1), (''gameDate'', JStr ''2026-02-11T20:00:00Z''),
                (''startTimeUTC'', JStr ''2026-02-11T20:00:00.000Z''),
                (''status'', JObj []), (''linescore'', JObj []), (''teams'', JObj [])],
          JObj [(''gamePk'', JNum 2), (''startTimeUTC'', JStr ''TBD''),
                (''status'', JObj []), (''linescore'', JObj []), (''teams'', JObj [])]] \<and>
   sorted_wrt (\<lambda>a b. datesInOrder
        (nhlStartDate (\<lambda>v. if v = JStr ''2026-02-11T20:00:00Z'' then Some 1770840000000
           else if v = JStr ''2026-02-11T17:00:00Z'' then Some 1770829200000 else None) a)
        (nhlStartDate (\<lambda>v. if v = JStr ''2026-02-11T20:00:00Z'' then Some 1770840000000
           else if v = JStr ''2026-02-11T17:00:00Z'' then Some 1770829200000 else None) b))
     [JObj [(''gamePk'', JNum 3), (''startTimeUTC'', JStr ''2026-02-11T17:00:00Z''),
                (''gameDate'', JStr ''2026-02-11T17:00:00.000Z''),
                (''status'', JObj []), (''linescore'', JObj []), (''teams'', JObj [])],
          JObj [(''gamePk'', JNum 1), (''gameDate'', JStr ''2026-02-11T20:00:00Z''),
                (''startTimeUTC'', JStr ''2026-02-11T20:00:00.000Z''),
                (''status'', JObj []), (''linescore'', JObj []), (''teams'', JObj [])],
          JObj [(''gamePk'', JNum 2), (''startTimeUTC'', JStr ''TBD''),
                (''status'', JObj []), (''linescore'', JObj []), (''teams'', JObj [])]]"
proof -
  let ?nd = "\<lambda>v. if v = JStr ''2026-02-11T20:00:00Z'' then Some (1770840000000::int)
           else if v = JStr ''2026-02-11T17:00:00Z'' then Some 1770829200000 else None"
  let ?parts = "\<lambda>g::jv. (Inr (JObj [], JObj [], JObj []) :: error + jv \<times> jv \<times> jv)"
  let ?in = "JArr [JObj [(''gamePk'', JNum 1), (''gameDate'', JStr ''2026-02-11T20:00:00Z'')],
            JObj [(''gamePk'', JNum 2), (''startTimeUTC'', JStr ''TBD'')],
            JObj [(''gamePk'', JNum 3), (''startTimeUTC'', JStr ''2026-02-11T17:00:00Z'')]]"
  let ?out = "[JObj [(''gamePk'', JNum 3), (''startTimeUTC'', JStr ''2026-02-11T17:00:00Z''),
                (''gameDate'', JStr ''2026-02-11T17:00:00.000Z''),
                (''status'', JObj []), (''linescore'', JObj []), (''teams'', JObj [])],
          JObj [(''gamePk'', JNum 1), (''gameDate'', JStr ''2026-02-11T20:00:00Z''),
                (''startTimeUTC'', JStr ''2026-02-11T20:00:00.000Z''),
                (''status'', JObj []), (''linescore'', JObj []), (''teams'', JObj [])],
          JObj [(''gamePk'', JNum 2), (''startTimeUTC'', JStr ''TBD''),
                (''status'', JObj []), (''linescore'', JObj []), (''teams'', JObj [])]]"
  have e: "hydrateNhlGames ?nd ?parts ?in = Inr ?out"
    by code_simp
  from games_sorted_undated_last [of ?nd ?parts ?in ?out] e
  have "sorted_wrt (\<lambda>a b. datesInOrder (nhlStartDate ?nd a) (nhlStartDate ?nd b)) ?out"
    by blast
  with e show ?thesis by blast
qed

section \<open>Properties of the 24-hour switch of the NHL stats REST fallback\<close>

lemma available_in_window:
  assumes "switched t0 h" "t0 \<noteq> 0" "now - t0 < restTtl"
  shows "\<exists>h1 msgs. nhlStatsRestAvailable h now = (False, h1, msgs) \<and> switched t0 h1"
  using assms by (auto simp: nhlStatsRestAvailable_def switched_def Let_def)

lemma available_after_ttl:
  assumes "switched t0 h" "restTtl \<le> now - t0"
  shows "nhlStatsRestAvailable h now = (True, h, [])"
  using assms by (auto simp: nhlStatsRestAvailable_def switched_def Let_def)

lemma available_keeps_state:
  "nhlStatsRestAvailable h now = (True, h1, msgs) \<Longrightarrow> h1 = h \<and> msgs = []"
  by (auto simp: nhlStatsRestAvailable_def Let_def split: if_splits)

lemma fetch_skips_in_window:
  assumes "switched t0 h" "t0 \<noteq> 0" "atCheck call - t0 < restTtl"
    and "fetchNhlStatsRestGames nd parts nrm h dIso call = (h1, out)"
  shows "restResult out = Inr [] \<and> restRequests out = [] \<and> switched t0 h1"
proof -
  obtain h' msgs where a: "nhlStatsRestAvailable h (atCheck call) = (False, h', msgs)"
      and s: "switched t0 h'"
    using available_in_window [OF assms(1-3)] by blast
  from assms(4) a have "h1 = h'" and "out = \<lparr> restResult = Inr [], restRequests = [], restConsole = msgs \<rparr>"
    by (simp_all add: fetchNhlStatsRestGames_def)
  with s show ?thesis by simp
qed

lemma calls_skip_in_window:
  assumes "switched t0 h" "t0 \<noteq> 0"
    and "\<forall>(d, c) \<in> set calls. atCheck c - t0 < restTtl"
    and "restCalls nd parts nrm h calls = (h2, outs)"
  shows "(\<forall>out \<in> set outs. restResult out = Inr [] \<and> restRequests out = []) \<and>
         length outs = length calls \<and> switched t0 h2"
  using assms
proof (induction calls arbitrary: h h2 outs)
  case Nil
  then show ?case by simp
next
  case (Cons dc calls)
  obtain d c where dc: "dc = (d, c)" by (cases dc)
  obtain h1 out where f: "fetchNhlStatsRestGames nd parts nrm h d c = (h1, out)"
    by (cases "fetchNhlStatsRestGames nd parts nrm h d c")
  obtain h2' outs' where r: "restCalls nd parts nrm h1 calls = (h2', outs')"
    by (cases "restCalls nd parts nrm h1 calls")
  from Cons.prems(4) dc f r have e: "h2 = h2'" "outs = out # outs'"
    by simp_all
  from Cons.prems(3) dc have w: "atCheck c - t0 < restTtl" by simp
  have s1: "restResult out = Inr [] \<and> restRequests out = [] \<and> switched t0 h1"
    by (rule fetch_skips_in_window [OF Cons.prems(1) Cons.prems(2) w f])
  then have sw: "switched t0 h1" by simp
  from Cons.prems(3) have rest: "\<forall>(d, c) \<in> set calls. atCheck c - t0 < restTtl" by simp
  from Cons.IH [OF sw Cons.prems(2) rest r] s1 e show ?case by simp
qed

lemma fetch_attempts_after_ttl:
  assumes "switched t0 h" "restTtl \<le> atCheck call - t0"
    and "fetchNhlStatsRestGames nd parts nrm h dIso call = (h1, out)"
  shows "restRequests out = [restUrl dIso]"
proof -
  have a: "nhlStatsRestAvailable h (atCheck call) = (True, h, [])"
    by (rule available_after_ttl [OF assms(1,2)])
  from assms(3) show ?thesis
    unfolding fetchNhlStatsRestGames_def a markNhlStatsRestUnavailable_def
    by (auto simp: Let_def split: httpResult.splits if_splits option.splits)
qed

lemma fetch_404_switches:
  assumes "fst (nhlStatsRestAvailable h (atCheck call))" "answer call = Response 404 body"
    and "fetchNhlStatsRestGames nd parts nrm h dIso call = (h1, out)"
  shows "switched (atMark call) h1 \<and> restRequests out = [restUrl dIso] \<and>
         restResult out = Inl (HttpError 404)"
proof -
  obtain h' msgs where a: "nhlStatsRestAvailable h (atCheck call) = (True, h', msgs)"
    using assms(1) by (cases "nhlStatsRestAvailable h (atCheck call)") auto
  from assms(3) show ?thesis
    unfolding fetchNhlStatsRestGames_def a
    by (auto simp: assms(2) responseOk_def markNhlStatsRestUnavailable_def switched_def)
qed

text \<open>
  Claim C8. Once a call of the NHL stats REST endpoint has returned HTTP 404 (at the
  clock reading \<open>atMark c0\<close>, a positive number of milliseconds), every fetch during
  the following 24 hours returns an empty list without a request to the endpoint, and
  a fetch made once the 24 hours have elapsed sends the request again.
\<close>

theorem rest_404_disables_for_24h:
  assumes "fst (nhlStatsRestAvailable h (atCheck c0))"
    and "answer c0 = Response 404 body"
    and "0 < atMark c0"
    and "\<forall>(d, c) \<in> set calls. atMark c0 \<le> atCheck c \<and> atCheck c < atMark c0 + restTtl"
    and "atMark c0 + restTtl \<le> atCheck c1"
    and "fetchNhlStatsRestGames nd parts nrm h d0 c0 = (h1, out0)"
    and "restCalls nd parts nrm h1 calls = (h2, outs)"
    and "fetchNhlStatsRestGames nd parts nrm h2 d1 c1 = (h3, out1)"
  shows "restRequests out0 = [restUrl d0] \<and>
         (\<forall>out \<in> set outs. restResult out = Inr [] \<and> restRequests out = []) \<and>
         length outs = length calls \<and>
         restRequests out1 = [restUrl d1]"
proof -
  have s1: "switched (atMark c0) h1" and r0: "restRequests out0 = [restUrl d0]"
    using fetch_404_switches [OF assms(1,2,6)] by simp_all
  have nz: "atMark c0 \<noteq> 0" using assms(3) by simp
  have w: "\<forall>(d, c) \<in> set calls. atCheck c - atMark c0 < restTtl"
    using assms(4) by auto
  have m: "(\<forall>out \<in> set outs. restResult out = Inr [] \<and> restRequests out = []) \<and>
         length outs = length calls \<and> switched (atMark c0) h2"
    by (rule calls_skip_in_window [OF s1 nz w assms(7)])
  then have s2: "switched (atMark c0) h2" by simp
  have l: "restTtl \<le> atCheck c1 - atMark c0" using assms(5) by simp
  have "restRequests out1 = [restUrl d1]"
    by (rule fetch_attempts_after_ttl [OF s2 l assms(8)])
  with r0 m show ?thesis by simp
qed

theorem rest_404_disables_for_24h_witness:
  "fst (nhlStatsRestAvailable start 1000) \<and>
   restRequests (snd (fetchNhlStatsRestGames (\<lambda>v. None) (\<lambda>g. Inr (JObj [], JObj [], JObj []))
       (\<lambda>g. g) start ''2026-02-10''
       \<lparr> atCheck = 1000, answer = Response 404 None, atMark = 1200, atWarn = 1201 \<rparr>))
     = [restUrl ''2026-02-10''] \<and>
   map (\<lambda>out. (restResult out, restRequests out))
     (snd (restCalls (\<lambda>v. None) (\<lambda>g. Inr (JObj [], JObj [], JObj [])) (\<lambda>g. g)
       (fst (fetchNhlStatsRestGames (\<lambda>v. None) (\<lambda>g. Inr (JObj [], JObj [], JObj []))
          (\<lambda>g. g) start ''2026-02-10''
          \<lparr> atCheck = 1000, answer = Response 404 None, atMark = 1200, atWarn = 1201 \<rparr>))
       [(''2026-02-11'', \<lparr> atCheck = 5000,
            answer = Response 200 (Some (JObj [(''data'', JArr [JObj []])])),
            atMark = 5001, atWarn = 5002 \<rparr>),
        (''2026-02-11'', \<lparr> atCheck = 86401199, answer = Response 404 None,
            atMark = 86401199, atWarn = 86401199 \<rparr>)]))
     = [(Inr [], []), (Inr [], [])] \<and>
   restRequests (snd (fetchNhlStatsRestGames (\<lambda>v. None) (\<lambda>g. Inr (JObj [], JObj [], JObj []))
       (\<lambda>g. g)
       (fst (restCalls (\<lambda>v. None) (\<lambda>g. Inr (JObj [], JObj [], JObj [])) (\<lambda>g. g)
          (fst (fetchNhlStatsRestGames (\<lambda>v. None) (\<lambda>g. Inr (JObj [], JObj [], JObj []))
             (\<lambda>g. g) start ''2026-02-10''
             \<lparr> atCheck = 1000, answer = Response 404 None, atMark = 1200, atWarn = 1201 \<rparr>))
          [(''2026-02-11'', \<lparr> atCheck = 5000,
               answer = Response 200 (Some (JObj [(''data'', JArr [JObj []])])),
               atMark = 5001, atWarn = 5002 \<rparr>),
           (''2026-02-11'', \<lparr> atCheck = 86401199, answer = Response 404 None,
               atMark = 86401199, atWarn = 86401199 \<rparr>)]))
       ''2026-02-12''
       \<lparr> atCheck = 86401200, answer = Response 200 (Some (JObj [(''data'', JArr [JObj []])])),
         atMark = 0, atWarn = 0 \<rparr>))
     = [restUrl ''2026-02-12'']"
proof -
  let ?nd = "\<lambda>v::jv. (None :: int option)"
  let ?pt = "\<lambda>g::jv. (Inr (JObj [], JObj [], JObj []) :: error + jv \<times> jv \<times> jv)"
  let ?nm = "\<lambda>g::jv. g"
  let ?c0 = "\<lparr> atCheck = 1000, answer = Response 404 None, atMark = 1200, atWarn = 1201 \<rparr>"
  let ?calls = "[(''2026-02-11'', \<lparr> atCheck = 5000,
            answer = Response 200 (Some (JObj [(''data'', JArr [JObj []])])),
            atMark = 5001, atWarn = 5002 \<rparr>),
        (''2026-02-11'', \<lparr> atCheck = 86401199, answer = Response 404 None,
            atMark = 86401199, atWarn = 86401199 \<rparr>)]"
  let ?c1 = "\<lparr> atCheck = 86401200, answer = Response 200 (Some (JObj [(''data'', JArr [JObj []])])),
         atMark = 0, atWarn = 0 \<rparr>"
  let ?r0 = "fetchNhlStatsRestGames ?nd ?pt ?nm start ''2026-02-10'' ?c0"
  let ?r1 = "restCalls ?nd ?pt ?nm (fst ?r0) ?calls"
  let ?r2 = "fetchNhlStatsRestGames ?nd ?pt ?nm (fst ?r1) ''2026-02-12'' ?c1"
  have a1: "fst (nhlStatsRestAvailable start (atCheck ?c0))"
    by (simp add: nhlStatsRestAvailable_def start_def)
  have a2: "answer ?c0 = Response 404 None" by simp
  have a3: "0 < atMark ?c0" by simp
  have a4: "\<forall>(d, c) \<in> set ?calls. atMark ?c0 \<le> atCheck c \<and> atCheck c < atMark ?c0 + restTtl"
    by (simp add: restTtl_def)
  have a5: "atMark ?c0 + restTtl \<le> atCheck ?c1"
    by (simp add: restTtl_def)
  have e0: "?r0 = (fst ?r0, snd ?r0)" by simp
  have e1: "?r1 = (fst ?r1, snd ?r1)" by simp
  have e2: "?r2 = (fst ?r2, snd ?r2)" by simp
  note t = rest_404_disables_for_24h [OF a1 a2 a3 a4 a5 e0 e1 e2]
  from t have l: "length (snd ?r1) = 2" by simp
  then obtain o1 o2 where o: "snd ?r1 = [o1, o2]"
    by (auto simp: length_Suc_conv numeral_2_eq_2)
  with t have "map (\<lambda>out. (restResult out, restRequests out)) (snd ?r1) = [(Inr [], []), (Inr [], [])]"
    by simp
  with t a1 show ?thesis by simp
qed

section \<open>Properties of the NFL week merge\<close>

lemma mergeEvents_foldl:
  "mergeEvents keyPrefix agg j events = foldl addFirst agg (keyedFrom keyPrefix j events)"
  by (induction events arbitrary: agg j) (simp_all add: addFirst_def Let_def)

lemma collect_not_object:
  "\<not> truthy json \<or> \<not> typeofObject json \<Longrightarrow> collectNflScoreboardEvents json = []"
  by (simp add: collectNflScoreboardEvents_def)

lemma mergeWeek_foldl:
  "fst (mergeWeek acc dates) = foldl addFirst (fst acc) (fetchedEvents dates)"
proof (induction acc dates rule: mergeWeek.induct)
  case (1 acc)
  then show ?case by simp
next
  case (2 acc dIso dates)
  then show ?case by simp
next
  case (3 acc dIso json dates)
  have "fst (mergeNflScoreboardResponse json acc dIso)
          = foldl addFirst (fst acc) (keyedEvents dIso (collectNflScoreboardEvents json))"
  proof (cases "\<not> truthy json \<or> \<not> typeofObject json")
    case True
    then have "collectNflScoreboardEvents json = []" by (rule collect_not_object)
    with True show ?thesis
      by (simp add: mergeNflScoreboardResponse_def keyedEvents_def)
  next
    case False
    then show ?thesis
      by (simp add: mergeNflScoreboardResponse_def keyedEvents_def mergeEvents_foldl)
  qed
  with 3 show ?case by simp
qed

lemma mapHas_set:
  "mapHas m key = (\<exists>ke \<in> set m. sameValueZero (fst ke) key)"
  unfolding mapHas_def list_ex_iff by (simp add: case_prod_beta)

lemma firstOccurrences_snoc:
  "firstOccurrences (all @ [x]) =
     firstOccurrences all @
       (if \<exists>j < length all. sameValueZero (fst (all ! j)) (fst x) then [] else [x])"
proof -
  have a: "filter (\<lambda>i. \<not> list_ex (\<lambda>j. sameValueZero (fst ((all @ [x]) ! j)) (fst ((all @ [x]) ! i))) [0 ..< i])
             [0 ..< length all]
         = filter (\<lambda>i. \<not> list_ex (\<lambda>j. sameValueZero (fst (all ! j)) (fst (all ! i))) [0 ..< i])
             [0 ..< length all]"
    by (rule filter_cong) (auto simp: list_ex_iff nth_append)
  have b: "map (\<lambda>i. (all @ [x]) ! i)
             (filter (\<lambda>i. \<not> list_ex (\<lambda>j. sameValueZero (fst (all ! j)) (fst (all ! i))) [0 ..< i])
               [0 ..< length all])
         = map (\<lambda>i. all ! i)
             (filter (\<lambda>i. \<not> list_ex (\<lambda>j. sameValueZero (fst (all ! j)) (fst (all ! i))) [0 ..< i])
               [0 ..< length all])"
    by (rule map_cong) (auto simp: nth_append)
  have c: "list_ex (\<lambda>j. sameValueZero (fst ((all @ [x]) ! j)) (fst x)) [0 ..< length all]
         = (\<exists>j < length all. sameValueZero (fst (all ! j)) (fst x))"
    by (auto simp: list_ex_iff nth_append)
  show ?thesis
    unfolding firstOccurrences_def
    by (simp add: a b c)
qed

lemma sameValueZero_trans:
  "sameValueZero a b \<Longrightarrow> sameValueZero b c \<Longrightarrow> sameValueZero a c"
  by (auto simp: sameValueZero_def)

lemma sameValueZero_eq: "sameValueZero a b \<Longrightarrow> a = b \<and> isPrimitive a"
  by (auto simp: sameValueZero_def)

lemma firstOccurrences_member:
  "set (firstOccurrences all) \<subseteq> set all"
  by (auto simp: firstOccurrences_def)

lemma mapHas_firstOccurrences:
  "mapHas (firstOccurrences all) key = (\<exists>j < length all. sameValueZero (fst (all ! j)) key)"
proof
  assume "mapHas (firstOccurrences all) key"
  then obtain ke where "ke \<in> set (firstOccurrences all)" "sameValueZero (fst ke) key"
    by (auto simp: mapHas_set)
  moreover from this firstOccurrences_member [of all] have "ke \<in> set all"
    by blast
  then obtain j where "j < length all" "all ! j = ke"
    by (auto simp: in_set_conv_nth)
  ultimately show "\<exists>j < length all. sameValueZero (fst (all ! j)) key"
    by blast
next
  assume ex: "\<exists>j < length all. sameValueZero (fst (all ! j)) key"
  define i where "i = (LEAST j. j < length all \<and> sameValueZero (fst (all ! j)) key)"
  have i: "i < length all \<and> sameValueZero (fst (all ! i)) key"
    unfolding i_def using ex by (rule LeastI_ex)
  have least: "\<not> (j < length all \<and> sameValueZero (fst (all ! j)) key)" if "j < i" for j
    using that not_less_Least unfolding i_def by blast
  have "\<not> list_ex (\<lambda>j. sameValueZero (fst (all ! j)) (fst (all ! i))) [0 ..< i]"
  proof
    assume "list_ex (\<lambda>j. sameValueZero (fst (all ! j)) (fst (all ! i))) [0 ..< i]"
    then obtain j where j: "j < i" "sameValueZero (fst (all ! j)) (fst (all ! i))"
      by (auto simp: list_ex_iff)
    with i have "sameValueZero (fst (all ! j)) key"
      using sameValueZero_trans by blast
    with least [OF j(1)] i j(1) show False by simp
  qed
  with i have "all ! i \<in> set (firstOccurrences all)"
    by (auto simp: firstOccurrences_def)
  with i show "mapHas (firstOccurrences all) key"
    by (auto simp: mapHas_set)
qed

lemma foldl_addFirst_firstOccurrences:
  "foldl addFirst [] all = firstOccurrences all"
proof (induction all rule: rev_induct)
  case Nil
  then show ?case by (simp add: firstOccurrences_def)
next
  case (snoc x xs)
  then show ?case
    by (simp add: addFirst_def firstOccurrences_snoc mapHas_firstOccurrences)
qed

lemma keyedFrom_key_is_id:
  "(k, e) \<in> set (keyedFrom keyPrefix j events) \<Longrightarrow> truthy (get e ''id'') \<Longrightarrow> k = get e ''id''"
  by (induction events arbitrary: j) (auto simp: nflEventKey_def jor_def split: if_splits)

lemma fetchedEvents_key_is_id:
  "(k, e) \<in> set (fetchedEvents dates) \<Longrightarrow> truthy (get e ''id'') \<Longrightarrow> k = get e ''id''"
  by (induction dates rule: fetchedEvents.induct)
     (auto simp: keyedEvents_def dest: keyedFrom_key_is_id)

lemma distinct_primitive_keys:
  "distinct (filter isPrimitive (map fst (firstOccurrences all)))"
proof (induction all rule: rev_induct)
  case Nil
  then show ?case by (simp add: firstOccurrences_def)
next
  case (snoc x xs)
  show ?case
  proof (cases "\<exists>j < length xs. sameValueZero (fst (xs ! j)) (fst x)")
    case True
    with snoc show ?thesis by (simp add: firstOccurrences_snoc)
  next
    case False
    have nx: "fst x \<notin> set (map fst (firstOccurrences xs))" if p: "isPrimitive (fst x)"
    proof
      assume "fst x \<in> set (map fst (firstOccurrences xs))"
      then obtain ke where ke: "ke \<in> set (firstOccurrences xs)" "fst ke = fst x"
        by auto
      with firstOccurrences_member [of xs] have "ke \<in> set xs" by blast
      then obtain j where "j < length xs" "xs ! j = ke"
        by (auto simp: in_set_conv_nth)
      with ke p have "j < length xs \<and> sameValueZero (fst (xs ! j)) (fst x)"
        by (simp add: sameValueZero_def)
      with False show False by blast
    qed
    show ?thesis
    proof (cases "isPrimitive (fst x)")
      case True
      from nx [OF True] have "fst x \<notin> fst ` set (firstOccurrences xs)" by simp
      with True False snoc show ?thesis
        by (simp add: firstOccurrences_snoc)
    next
      case np: False
      with False snoc show ?thesis
        by (simp add: firstOccurrences_snoc)
    qed
  qed
qed

lemma weekGames_firstOccurrences:
  "weekGames (fetchNflWeekGames localeCompare dates) =
     filter (\<lambda>g. \<not> isNflProBowl g) (map snd (firstOccurrences (fetchedEvents dates)))"
proof -
  have "fst (mergeWeek ([], []) dates) = firstOccurrences (fetchedEvents dates)"
    using mergeWeek_foldl [of "([], [])" dates] by (simp add: foldl_addFirst_firstOccurrences)
  then show ?thesis
    by (simp add: fetchNflWeekGames_def finalizeNflWeekResults_def)
qed

lemma weekGames_distinct_ids:
  "distinct (map (\<lambda>g. get g ''id'')
     (filter (\<lambda>g. truthy (get g ''id'') \<and> isPrimitive (get g ''id''))
        (weekGames (fetchNflWeekGames localeCompare dates))))"
proof -
  define A where "A = firstOccurrences (fetchedEvents dates)"
  define R where "R = (\<lambda>ke :: jv \<times> jv. (truthy (get (snd ke) ''id'') \<and> isPrimitive (get (snd ke) ''id''))
                         \<and> \<not> isNflProBowl (snd ke))"
  have key: "fst ke = get (snd ke) ''id''" if "ke \<in> set A" "R ke" for ke
  proof -
    from that(1) firstOccurrences_member [of "fetchedEvents dates"]
    have "(fst ke, snd ke) \<in> set (fetchedEvents dates)"
      by (auto simp: A_def)
    moreover from that(2) have "truthy (get (snd ke) ''id'')" by (simp add: R_def)
    ultimately show ?thesis by (rule fetchedEvents_key_is_id)
  qed
  have e1: "map (\<lambda>g. get g ''id'')
     (filter (\<lambda>g. truthy (get g ''id'') \<and> isPrimitive (get g ''id''))
        (weekGames (fetchNflWeekGames localeCompare dates)))
     = map (\<lambda>ke. get (snd ke) ''id'') (filter R A)"
    by (simp add: weekGames_firstOccurrences A_def R_def filter_map comp_def conj_commute)
  have e2: "map (\<lambda>ke. get (snd ke) ''id'') (filter R A) = map fst (filter R A)"
    by (rule map_cong) (auto simp: key)
  have e3: "filter R A = filter R (filter (\<lambda>ke. isPrimitive (fst ke)) A)"
  proof -
    have "filter R (filter (\<lambda>ke. isPrimitive (fst ke)) A)
            = filter (\<lambda>ke. isPrimitive (fst ke) \<and> R ke) A"
      by simp
    also have "\<dots> = filter R A"
    proof (rule filter_cong)
      show "A = A" by simp
    next
      fix ke assume m: "ke \<in> set A"
      show "(isPrimitive (fst ke) \<and> R ke) = R ke"
      proof (cases "R ke")
        case True
        with key [OF m True] show ?thesis by (simp add: R_def)
      next
        case False
        then show ?thesis by simp
      qed
    qed
    finally show ?thesis by simp
  qed
  have "distinct (map fst (filter (\<lambda>ke. isPrimitive (fst ke)) A))"
    using distinct_primitive_keys [of "fetchedEvents dates"]
    by (simp add: A_def filter_map comp_def)
  then have "distinct (map fst (filter R (filter (\<lambda>ke. isPrimitive (fst ke)) A)))"
    by (rule distinct_map_filter)
  then have "distinct (map fst (filter R A))"
    by (simp only: e3 [symmetric])
  then show ?thesis
    by (simp only: e1 e2)
qed

text \<open>
  Claim C2, as the specification states it, fails: when the same event id comes in two
  date buckets, the occurrence of the bucket fetched first is kept and the later one
  is dropped.
\<close>

theorem nfl_merge_last_write_wins_counterexample:
  "weekGames (fetchNflWeekGames (\<lambda>a b. 0)
     [(''2025-09-11'', Some (JObj [(''events'', JArr
          [JObj [(''id'', JStr ''401''), (''name'', JStr ''first'')]])])),
      (''2025-09-12'', Some (JObj [(''events'', JArr
          [JObj [(''id'', JStr ''401''), (''name'', JStr ''second'')]])]))])
   = [JObj [(''id'', JStr ''401''), (''name'', JStr ''first'')]]"
  by code_simp

text \<open>
  Claim C2, amended. When the NFL scoreboard responses for the dates of a week are
  merged, no event id (a truthy primitive \<open>id\<close>) appears more than once in the
  aggregated game list, and the merge is first-write-wins: the list holds, in fetch
  order, the first occurrence of every key, less the Pro Bowl events. So when the same
  event id occurs in more than one date bucket, the occurrence from the bucket fetched
  first is the one kept.
\<close>

theorem nfl_merge_first_write_wins:
  "distinct (map (\<lambda>g. get g ''id'')
     (filter (\<lambda>g. truthy (get g ''id'') \<and> isPrimitive (get g ''id''))
        (weekGames (fetchNflWeekGames localeCompare dates)))) \<and>
   weekGames (fetchNflWeekGames localeCompare dates) =
     filter (\<lambda>g. \<not> isNflProBowl g) (map snd (firstOccurrences (fetchedEvents dates)))"
  using weekGames_distinct_ids weekGames_firstOccurrences by blast

theorem nfl_merge_first_write_wins_witness:
  "weekGames (fetchNflWeekGames (\<lambda>a b. 0)
     [(''2025-09-11'', Some (JObj [(''events'', JArr
          [JObj [(''id'', JStr ''401''), (''name'', JStr ''Thursday feed'')],
           JObj [(''id'', JStr ''402''), (''shortName'', JStr ''AFC vs NFC'')]])])),
      (''2025-09-12'', None),
      (''2025-09-13'', Some (JObj [(''events'', JArr
          [JObj [(''id'', JStr ''401''), (''name'', JStr ''Saturday feed'')],
           JObj [(''id'', JStr ''403''), (''name'', JStr ''Bears at Lions'')]])]))])
   = [JObj [(''id'', JStr ''401''), (''name'', JStr ''Thursday feed'')],
      JObj [(''id'', JStr ''403''), (''name'', JStr ''Bears at Lions'')]] \<and>
   map snd (firstOccurrences (fetchedEvents
     [(''2025-09-11'', Some (JObj [(''events'', JArr
          [JObj [(''id'', JStr ''401''), (''name'', JStr ''Thursday feed'')],
           JObj [(''id'', JStr ''402''), (''shortName'', JStr ''AFC vs NFC'')]])])),
      (''2025-09-12'', None),
      (''2025-09-13'', Some (JObj [(''events'', JArr
          [JObj [(''id'', JStr ''401''), (''name'', JStr ''Saturday feed'')],
           JObj [(''id'', JStr ''403''), (''name'', JStr ''Bears at Lions'')]])]))]))
   = [JObj [(''id'', JStr ''401''), (''name'', JStr ''Thursday feed'')],
      JObj [(''id'', JStr ''402''), (''shortName'', JStr ''AFC vs NFC'')],
      JObj [(''id'', JStr ''403''), (''name'', JStr ''Bears at Lions'')]] \<and>
   distinct [JStr ''401'', JStr ''403'']"
proof -
  let ?dates = "[(''2025-09-11'', Some (JObj [(''events'', JArr
          [JObj [(''id'', JStr ''401''), (''name'', JStr ''Thursday feed'')],
           JObj [(''id'', JStr ''402''), (''shortName'', JStr ''AFC vs NFC'')]])])),
      (''2025-09-12'', None),
      (''2025-09-13'', Some (JObj [(''events'', JArr
          [JObj [(''id'', JStr ''401''), (''name'', JStr ''Saturday feed'')],
           JObj [(''id'', JStr ''403''), (''name'', JStr ''Bears at Lions'')]])]))]"
  have f: "map snd (firstOccurrences (fetchedEvents ?dates))
     = [JObj [(''id'', JStr ''401''), (''name'', JStr ''Thursday feed'')],
      JObj [(''id'', JStr ''402''), (''shortName'', JStr ''AFC vs NFC'')],
      JObj [(''id'', JStr ''403''), (''name'', JStr ''Bears at Lions'')]]"
    by code_simp
  have p: "filter (\<lambda>g. \<not> isNflProBowl g)
      [JObj [(''id'', JStr ''401''), (''name'', JStr ''Thursday feed'')],
      JObj [(''id'', JStr ''402''), (''shortName'', JStr ''AFC vs NFC'')],
      JObj [(''id'', JStr ''403''), (''name'', JStr ''Bears at Lions'')]]
     = [JObj [(''id'', JStr ''401''), (''name'', JStr ''Thursday feed'')],
      JObj [(''id'', JStr ''403''), (''name'', JStr ''Bears at Lions'')]]"
    by code_simp
  note t = nfl_merge_first_write_wins [of "\<lambda>a b. 0" ?dates]
  from t have g: "weekGames (fetchNflWeekGames (\<lambda>a b. 0) ?dates)
     = [JObj [(''id'', JStr ''401''), (''name'', JStr ''Thursday feed'')],
      JObj [(''id'', JStr ''403''), (''name'', JStr ''Bears at Lions'')]]"
    unfolding f p by blast
  from t have "distinct (map (\<lambda>g. get g ''id'')
     (filter (\<lambda>g. truthy (get g ''id'') \<and> isPrimitive (get g ''id''))
        (weekGames (fetchNflWeekGames (\<lambda>a b. 0) ?dates))))"
    by blast
  then have "distinct [JStr ''401'', JStr ''403'']"
    unfolding g by simp
  with g f show ?thesis by blast
qed

section \<open>Properties of the Olympic hockey orchestrator\<close>

lemma getProviderCache_state:
  assumes "getProviderCache tn h provider lk dIso now = (r, h1)"
  shows "olympicLastGoodByLeague h1 = olympicLastGoodByLeague h \<and> config h1 = config h \<and>
         leagues h1 = leagues h \<and>
         (h1 = h \<or> (\<exists>k. h1 = h\<lparr> providerCache := (providerCache h)(k := None) \<rparr>))"
  using assms
  by (auto simp: getProviderCache_def Let_def split: option.splits if_splits)

lemma cacheTtlMs_config: "config h1 = config h \<Longrightarrow> cacheTtlMs tn h1 = cacheTtlMs tn h"
  by (simp add: cacheTtlMs_def)

lemma cacheHoldsNoGames_delete:
  assumes "cacheHoldsNoGames tn h provider lk dIso now"
  shows "cacheHoldsNoGames tn (h\<lparr> providerCache := (providerCache h)(k := None) \<rparr>)
           provider lk dIso now"
proof -
  let ?h1 = "h\<lparr> providerCache := (providerCache h)(k := None) \<rparr>"
  have t: "cacheTtlMs tn ?h1 = cacheTtlMs tn h"
    by (simp add: cacheTtlMs_def)
  show ?thesis
  proof (cases "cacheKey provider lk dIso = k")
    case True
    then show ?thesis
      by (simp add: cacheHoldsNoGames_def getProviderCache_def Let_def)
  next
    case False
    with assms t show ?thesis
      by (simp add: cacheHoldsNoGames_def getProviderCache_def Let_def
            split: option.splits if_splits)
  qed
qed

lemma chainYieldsNoGames_delete:
  "chainYieldsNoGames tn h lk cyc i plans \<Longrightarrow>
   chainYieldsNoGames tn (h\<lparr> providerCache := (providerCache h)(k := None) \<rparr>) lk cyc i plans"
  by (induction plans arbitrary: i) (auto simp: cacheHoldsNoGames_delete)

lemma providerLoop_state:
  "providerLoop tn h lk cyc i plans = (h1, gs, used) \<Longrightarrow>
   olympicLastGoodByLeague h1 = olympicLastGoodByLeague h \<and> config h1 = config h \<and>
   leagues h1 = leagues h"
proof (induction plans arbitrary: h i)
  case Nil
  then show ?case by simp
next
  case (Cons pf plans)
  obtain provider fetched where pf: "pf = (provider, fetched)" by (cases pf)
  obtain r h0 where g: "getProviderCache tn h provider lk (cycDateIso cyc) (cycLookupAt cyc i) = (r, h0)"
    by (cases "getProviderCache tn h provider lk (cycDateIso cyc) (cycLookupAt cyc i)")
  note s0 = getProviderCache_state [OF g]
  show ?case
  proof (cases r)
    case (Some cached)
    with Cons.prems pf g s0 show ?thesis by simp
  next
    case None
    show ?thesis
    proof (cases fetched)
      case (Inl e)
      with Cons.prems pf g None have "providerLoop tn h0 lk cyc (i + 1) plans = (h1, gs, used)"
        by simp
      from Cons.IH [OF this] s0 show ?thesis by simp
    next
      case (Inr fg)
      show ?thesis
      proof (cases "length fg > 0")
        case True
        with Cons.prems pf g None Inr s0 show ?thesis
          by (auto simp: setProviderCache_def)
      next
        case False
        with Cons.prems pf g None Inr have "providerLoop tn h0 lk cyc (i + 1) plans = (h1, gs, used)"
          by simp
        from Cons.IH [OF this] s0 show ?thesis by simp
      qed
    qed
  qed
qed

lemma providerLoop_no_games:
  "chainYieldsNoGames tn h lk cyc i plans \<Longrightarrow>
   providerLoop tn h lk cyc i plans = (h1, gs, used) \<Longrightarrow> gs = []"
proof (induction plans arbitrary: h i)
  case Nil
  then show ?case by simp
next
  case (Cons pf plans)
  obtain provider fetched where pf: "pf = (provider, fetched)" by (cases pf)
  obtain r h0 where g: "getProviderCache tn h provider lk (cycDateIso cyc) (cycLookupAt cyc i) = (r, h0)"
    by (cases "getProviderCache tn h provider lk (cycDateIso cyc) (cycLookupAt cyc i)")
  from Cons.prems(1) pf have c: "cacheHoldsNoGames tn h provider lk (cycDateIso cyc) (cycLookupAt cyc i)"
      and y: "yieldsNoGames fetched"
      and rest: "chainYieldsNoGames tn h lk cyc (i + 1) plans"
    by simp_all
  have rest0: "chainYieldsNoGames tn h0 lk cyc (i + 1) plans"
    using getProviderCache_state [OF g] rest chainYieldsNoGames_delete by auto
  show ?case
  proof (cases r)
    case (Some cached)
    with c g have "cached = []" by (simp add: cacheHoldsNoGames_def)
    with Cons.prems(2) pf g Some show ?thesis by simp
  next
    case None
    from y have "(\<exists>e. fetched = Inl e) \<or> fetched = Inr []"
      by (cases fetched) (simp_all add: yieldsNoGames_def)
    with Cons.prems(2) pf g None
    have "providerLoop tn h0 lk cyc (i + 1) plans = (h1, gs, used)"
      by auto
    from Cons.IH [OF rest0 this] show ?thesis .
  qed
qed

lemma lastGoodStage_store:
  assumes "lastGoodStage h lk loc = (h2, gs, used)"
  shows "olympicLastGoodByLeague h2 = olympicLastGoodByLeague h \<or>
         (\<exists>stored. stored \<noteq> [] \<and>
            olympicLastGoodByLeague h2 = (olympicLastGoodByLeague h)(lk \<mapsto> stored))"
  using assms
  by (auto simp: lastGoodStage_def split: if_splits option.splits)

lemma lastGoodStage_fallback:
  assumes "fst loc = []" "olympicLastGoodByLeague h lk = Some snapshot" "snapshot \<noteq> []"
  shows "lastGoodStage h lk loc = (h, snapshot, ''last_good_cache'')"
  using assms by (simp add: lastGoodStage_def)

lemma resultsPageStage_empty:
  assumes "fst loc = []"
    "normalizedOlympicGamesFromEvents nd (cycStamp cyc) (cycResultsPage cyc) lk ''espn_results_page'' = []"
  shows "fst (resultsPageStage nd lk cyc loc) = []"
  using assms by (simp add: resultsPageStage_def)

lemma notifyGames_olympic:
  "get (notifyGames h lg (JArr events) (JObj [(''olympicDiagnostics'', d)])) ''games'' = JArr events \<and>
   get (notifyGames h lg (JArr events) (JObj [(''olympicDiagnostics'', d)])) ''olympicDiagnostics'' = d"
  by (simp add: notifyGames_def Let_def)

text \<open>
  Claim C1. In a cycle of the Olympic hockey orchestrator in which every provider of
  the chain yields zero games (it throws or returns an empty list, and the cache holds
  no games for it) and the results-page scrape yields zero games as well, a non-empty
  last-good snapshot of the league is what the orchestrator emits, tagged
  \<open>last_good_cache\<close>, and the snapshot stays as it is. In every cycle the snapshots
  are either left unchanged or the league's snapshot is overwritten by a non-empty
  game list, so a snapshot is never replaced by an empty result.
\<close>

theorem olympic_last_good_fallback:
  assumes run: "fetchOlympicHockeyGames nd tn h league cyc = (h', payload)"
    and lk: "lk = (if league = ''olympic_whockey'' then ''olympic_whockey'' else ''olympic_mhockey'')"
  shows "(chainYieldsNoGames tn h lk cyc 0 (providerPlans nd lk cyc) \<and>
          normalizedOlympicGamesFromEvents nd (cycStamp cyc) (cycResultsPage cyc) lk
            ''espn_results_page'' = [] \<and>
          olympicLastGoodByLeague h lk = Some snapshot \<and> snapshot \<noteq> [] \<longrightarrow>
            get payload ''games'' = JArr (normalizedGamesToLegacyEvents snapshot) \<and>
            length (normalizedGamesToLegacyEvents snapshot) = length snapshot \<and>
            get (get payload ''olympicDiagnostics'') ''providerUsed'' = JStr ''last_good_cache'' \<and>
            olympicLastGoodByLeague h' = olympicLastGoodByLeague h) \<and>
         (olympicLastGoodByLeague h' = olympicLastGoodByLeague h \<or>
          (\<exists>stored. stored \<noteq> [] \<and>
             olympicLastGoodByLeague h' = (olympicLastGoodByLeague h)(lk \<mapsto> stored)))"
proof -
  obtain h1 games1 used1 where loop:
      "providerLoop tn h lk cyc 0 (providerPlans nd lk cyc) = (h1, games1, used1)"
    by (cases "providerLoop tn h lk cyc 0 (providerPlans nd lk cyc)") auto
  obtain h2 ng used where stage:
      "lastGoodStage h1 lk (resultsPageStage nd lk cyc (games1, used1)) = (h2, ng, used)"
    by (cases "lastGoodStage h1 lk (resultsPageStage nd lk cyc (games1, used1))") auto
  from run loop stage have h': "h' = h2"
    and payload: "payload = notifyGames h2 (JStr lk) (JArr (normalizedGamesToLegacyEvents ng))
                (JObj [(''olympicDiagnostics'', JObj
                   [(''providerUsed'', JStr used),
                    (''fetchedAtUTC'', JStr (cycStamp cyc)),
                    (''gameCount'', JNum (int (length (normalizedGamesToLegacyEvents ng)))),
                    (''dateIso'', JStr (cycDateIso cyc))])])"
    unfolding fetchOlympicHockeyGames_def lk [symmetric] by (auto simp: Let_def)
  have lg1: "olympicLastGoodByLeague h1 = olympicLastGoodByLeague h"
    using providerLoop_state [OF loop] by simp
  have partB: "olympicLastGoodByLeague h' = olympicLastGoodByLeague h \<or>
          (\<exists>stored. stored \<noteq> [] \<and>
             olympicLastGoodByLeague h' = (olympicLastGoodByLeague h)(lk \<mapsto> stored))"
    using lastGoodStage_store [OF stage] lg1 h' by simp
  have partA: "get payload ''games'' = JArr (normalizedGamesToLegacyEvents snapshot) \<and>
            length (normalizedGamesToLegacyEvents snapshot) = length snapshot \<and>
            get (get payload ''olympicDiagnostics'') ''providerUsed'' = JStr ''last_good_cache'' \<and>
            olympicLastGoodByLeague h' = olympicLastGoodByLeague h"
    if chain: "chainYieldsNoGames tn h lk cyc 0 (providerPlans nd lk cyc)"
      and page: "normalizedOlympicGamesFromEvents nd (cycStamp cyc) (cycResultsPage cyc) lk
            ''espn_results_page'' = []"
      and snap: "olympicLastGoodByLeague h lk = Some snapshot" "snapshot \<noteq> []"
  proof -
    have "games1 = []"
      by (rule providerLoop_no_games [OF chain loop])
    then have "fst (resultsPageStage nd lk cyc (games1, used1)) = []"
      using page by (simp add: resultsPageStage_empty)
    moreover have "olympicLastGoodByLeague h1 lk = Some snapshot"
      using snap lg1 by simp
    ultimately have "lastGoodStage h1 lk (resultsPageStage nd lk cyc (games1, used1))
                       = (h1, snapshot, ''last_good_cache'')"
      using snap(2) by (rule lastGoodStage_fallback)
    with stage have e: "h2 = h1" "ng = snapshot" "used = ''last_good_cache''"
      by simp_all
    show ?thesis
      unfolding payload e using lg1 h' e(1)
      by (simp add: notifyGames_olympic normalizedGamesToLegacyEvents_def)
  qed
  from partA partB show ?thesis by blast
qed

theorem olympic_last_good_fallback_witness:
  "map_option (map gameId) (olympicLastGoodByLeague afterCycle1 ''olympic_mhockey'') = Some [''401''] \<and>
   chainYieldsNoGames (\<lambda>v. None) afterCycle1 ''olympic_mhockey'' exampleCycle2 0
     (providerPlans (\<lambda>v. None) ''olympic_mhockey'' exampleCycle2) \<and>
   normalizedOlympicGamesFromEvents (\<lambda>v. None) (cycStamp exampleCycle2)
     (cycResultsPage exampleCycle2) ''olympic_mhockey'' ''espn_results_page'' = [] \<and>
   map (\<lambda>e. get e ''id'')
     (elems (get (snd (fetchOlympicHockeyGames (\<lambda>v. None) (\<lambda>v. None) afterCycle1
                         ''olympic_mhockey'' exampleCycle2)) ''games'')) = [JStr ''401''] \<and>
   get (get (snd (fetchOlympicHockeyGames (\<lambda>v. None) (\<lambda>v. None) afterCycle1
                    ''olympic_mhockey'' exampleCycle2)) ''olympicDiagnostics'') ''providerUsed''
     = JStr ''last_good_cache'' \<and>
   olympicLastGoodByLeague
     (fst (fetchOlympicHockeyGames (\<lambda>v. None) (\<lambda>v. None) afterCycle1
             ''olympic_mhockey'' exampleCycle2))
     = olympicLastGoodByLeague afterCycle1"
proof -
  let ?nd = "\<lambda>v::jv. (None :: int option)"
  let ?run = "fetchOlympicHockeyGames ?nd ?nd afterCycle1 ''olympic_mhockey'' exampleCycle2"
  have a: "map_option (map gameId) (olympicLastGoodByLeague afterCycle1 ''olympic_mhockey'')
             = Some [''401'']"
    by code_simp
  then obtain snapshot where s: "olympicLastGoodByLeague afterCycle1 ''olympic_mhockey'' = Some snapshot"
      and ids: "map gameId snapshot = [''401'']"
    by auto
  from ids have ne: "snapshot \<noteq> []" by auto
  have c: "chainYieldsNoGames ?nd afterCycle1 ''olympic_mhockey'' exampleCycle2 0
     (providerPlans ?nd ''olympic_mhockey'' exampleCycle2)"
    by code_simp
  have p: "normalizedOlympicGamesFromEvents ?nd (cycStamp exampleCycle2)
     (cycResultsPage exampleCycle2) ''olympic_mhockey'' ''espn_results_page'' = []"
    by code_simp
  have r: "?run = (fst ?run, snd ?run)" by simp
  have l: "''olympic_mhockey'' =
      (if ''olympic_mhockey'' = ''olympic_whockey'' then ''olympic_whockey'' else ''olympic_mhockey'')"
    by simp
  note t = olympic_last_good_fallback [OF r l, of snapshot]
  from t c p s ne have g: "get (snd ?run) ''games'' = JArr (normalizedGamesToLegacyEvents snapshot)"
     and u: "get (get (snd ?run) ''olympicDiagnostics'') ''providerUsed'' = JStr ''last_good_cache''"
     and k: "olympicLastGoodByLeague (fst ?run) = olympicLastGoodByLeague afterCycle1"
    by blast+
  have "map (\<lambda>e. get e ''id'') (normalizedGamesToLegacyEvents snapshot) = map (\<lambda>g. JStr (gameId g)) snapshot"
    by (simp add: normalizedGamesToLegacyEvents_def legacyEvent_def Let_def)
  also have "\<dots> = map JStr (map gameId snapshot)" by simp
  finally have "map (\<lambda>e. get e ''id'') (elems (get (snd ?run) ''games'')) = [JStr ''401'']"
    using g ids by simp
  with a c p u k show ?thesis by blast
qed

section \<open>Properties of the target date\<close>

text \<open>
  Two parts of the rule hold for every process zone: \<open>dateCompact\<close> is \<open>dateIso\<close>
  without its hyphens, and from 09:30 local time on the resolver returns the local
  calendar date as it is.
\<close>

lemma target_date_compact:
  "getTargetDate LocalTZA options localDate timeCT = Inr r \<Longrightarrow>
   dateCompact r = filter (\<lambda>c. c \<noteq> CHR ''-'') (dateIso r)"
  by (auto simp: getTargetDate_def mkTargetDate_def Let_def
        split: if_splits option.splits)

lemma target_date_not_early:
  assumes "parseInt (piece (splitChar CHR '':'' timeCT) 0) = Some h"
    and "parseInt (piece (splitChar CHR '':'' timeCT) 1) = Some m"
    and "9 < h \<or> (h = 9 \<and> 30 \<le> m)"
  shows "getTargetDate LocalTZA options localDate timeCT = Inr (mkTargetDate localDate)"
  using assms by (auto simp: getTargetDate_def Let_def)

text \<open>
  Claim C4 says that before 09:30 local time the resolver returns the previous local
  calendar day. The code moves the date back with \<open>setDate(getDate() - 1)\<close>, which
  works in the zone of the process, on a date that \<open>new Date(dateIso)\<close> has set to
  midnight UTC. In a process in the zone America/Chicago, at 08:00 local time on
  2024-11-04, the day after daylight saving time ended, the result is 2024-11-02: two
  days back where the claim says 2024-11-03. In a process whose zone has a fixed
  offset the same input gives 2024-11-03, and the Chicago process is right again one
  day later and at 09:30.
\<close>

theorem target_date_after_dst_end:
  "getTargetDate chicagoAutumn2024 JUndef ''2024-11-04'' ''08:00''
     = Inr \<lparr> dateIso = ''2024-11-02'', dateCompact = ''20241102'' \<rparr> \<and>
   getTargetDate utcZone JUndef ''2024-11-04'' ''08:00''
     = Inr \<lparr> dateIso = ''2024-11-03'', dateCompact = ''20241103'' \<rparr> \<and>
   getTargetDate chicagoAutumn2024 JUndef ''2024-11-05'' ''09:29''
     = Inr \<lparr> dateIso = ''2024-11-04'', dateCompact = ''20241104'' \<rparr> \<and>
   getTargetDate chicagoAutumn2024 JUndef ''2024-11-04'' ''09:30''
     = Inr \<lparr> dateIso = ''2024-11-04'', dateCompact = ''20241104'' \<rparr>"
  by code_simp

end
